theory Spec2Isabelle
  imports Main "HOL-Library.Sublist" "HOL-Library.AList"
begin

section \<open>Python strings\<close>

text \<open>
  Text is an Isabelle \<open>string\<close>, a list of 8-bit characters. STEP part-21 files are
  ASCII, and on ASCII text the functions below agree with Python's \<open>str\<close> methods and
  with the character classes of \<open>re\<close>. On other text they do not: Python's \<open>\w\<close>,
  \<open>\d\<close>, \<open>\s\<close>, \<open>str.lower\<close> and \<open>str.upper\<close> also know the letters, digits and
  spaces above 127, which here belong to no character class and have no case. So
  the theorems on the claims that speak of an arbitrary text assume \<open>isascii\<close> of it.
  The source's own non-ASCII literals, which only go into the output, are written as
  the bytes of their UTF-8 encoding.
\<close>

text \<open>\<open>str.isascii\<close>: every character is below 128.\<close>

definition isascii :: "string \<Rightarrow> bool" where
  "isascii s = list_all (\<lambda>c. \<not> digit7 c) s"

definition upper_letters :: string where
  "upper_letters = ''ABCDEFGHIJKLMNOPQRSTUVWXYZ''"

definition lower_letters :: string where
  "lower_letters = ''abcdefghijklmnopqrstuvwxyz''"

definition digit_chars :: string where
  "digit_chars = ''0123456789''"

text \<open>\<open>char_in c cs\<close>: the character \<open>c\<close> is one of \<open>cs\<close>.\<close>

primrec char_in :: "char \<Rightarrow> string \<Rightarrow> bool" where
  "char_in c [] = False"
| "char_in c (x # xs) = (if c = x then True else char_in c xs)"

definition is_upper :: "char \<Rightarrow> bool" where
  "is_upper c = char_in c upper_letters"

definition is_lower :: "char \<Rightarrow> bool" where
  "is_lower c = char_in c lower_letters"

definition is_digit :: "char \<Rightarrow> bool" where
  "is_digit c = char_in c digit_chars"

text \<open>\<open>str.isspace\<close> and the class \<open>\s\<close>: space, tab, LF, VT, FF, CR, FS, GS, RS, US.\<close>

definition is_space :: "char \<Rightarrow> bool" where
  "is_space c = char_in c [CHR 0x20, CHR 0x09, CHR 0x0A, CHR 0x0B, CHR 0x0C, CHR 0x0D,
                           CHR 0x1C, CHR 0x1D, CHR 0x1E, CHR 0x1F]"

text \<open>The class \<open>\w\<close> on ASCII text: a letter, a digit or the underscore.\<close>

definition is_word :: "char \<Rightarrow> bool" where
  "is_word c = (if is_lower c then True else if is_upper c then True
                else if is_digit c then True else c = CHR ''_'')"

text \<open>\<open>str.lower\<close> and \<open>str.upper\<close> on ASCII text.\<close>

definition lower_char :: "char \<Rightarrow> char" where
  "lower_char c = (case map_of (zip upper_letters lower_letters) c of
                     None \<Rightarrow> c | Some d \<Rightarrow> d)"

definition upper_char :: "char \<Rightarrow> char" where
  "upper_char c = (case map_of (zip lower_letters upper_letters) c of
                     None \<Rightarrow> c | Some d \<Rightarrow> d)"

definition lower :: "string \<Rightarrow> string" where
  "lower s = map lower_char s"

definition upper :: "string \<Rightarrow> string" where
  "upper s = map upper_char s"

text \<open>
  \<open>strip_prefix l s\<close> is the rest of \<open>s\<close> behind \<open>l\<close> when \<open>s\<close> begins with
  \<open>l\<close>; \<open>strip_prefix_ci\<close> is the same without regard to case.
\<close>

primrec strip_prefix :: "string \<Rightarrow> string \<Rightarrow> string option" where
  "strip_prefix [] s = Some s"
| "strip_prefix (x # xs) s =
     (case s of [] \<Rightarrow> None | y # ys \<Rightarrow> if x = y then strip_prefix xs ys else None)"

primrec strip_prefix_ci :: "string \<Rightarrow> string \<Rightarrow> string option" where
  "strip_prefix_ci [] s = Some s"
| "strip_prefix_ci (x # xs) s =
     (case s of
        [] \<Rightarrow> None
      | y # ys \<Rightarrow> if lower_char x = lower_char y then strip_prefix_ci xs ys else None)"

text \<open>\<open>sub in s\<close> on strings: \<open>sub\<close> occurs in \<open>s\<close> as a contiguous piece.\<close>

primrec py_in :: "string \<Rightarrow> string \<Rightarrow> bool" where
  "py_in sub [] = (sub = [])"
| "py_in sub (x # xs) =
     (if strip_prefix sub (x # xs) \<noteq> None then True else py_in sub xs)"

text \<open>\<open>any(keyword in s for keyword in keywords)\<close>.\<close>

primrec any_in :: "string list \<Rightarrow> string \<Rightarrow> bool" where
  "any_in [] s = False"
| "any_in (keyword # keywords) s = (if py_in keyword s then True else any_in keywords s)"

section \<open>Exceptions\<close>

datatype py_error = ValueError | IndexError

text \<open>
  \<open>int(s)\<close> on a string of decimal digits. CPython refuses a string of more than 4300
  digits with a ValueError (\<open>sys.int_info.default_max_str_digits\<close>).
\<close>

definition digit_value :: "char \<Rightarrow> int" where
  "digit_value c = int (length (takeWhile (\<lambda>d. d \<noteq> c) digit_chars))"

definition int_max_str_digits :: nat where
  "int_max_str_digits = 4300"

definition digits_value :: "string \<Rightarrow> int" where
  "digits_value s = foldl (\<lambda>n c. 10 * n + digit_value c) 0 s"

definition py_int :: "string \<Rightarrow> py_error + int" where
  "py_int s = (if int_max_str_digits < length s then Inl ValueError
               else Inr (digits_value s))"

section \<open>Regular expressions\<close>

text \<open>
  The patterns of the source use literals, character classes, repetition of a single
  character class (greedy and lazy), optional parts, alternatives and capture groups.
\<close>

datatype rx =
    Eps
  | Lit string
  | LitI string
  | Cls "char \<Rightarrow> bool"
  | Star "char \<Rightarrow> bool"
  | Plus "char \<Rightarrow> bool"
  | StarLazy "char \<Rightarrow> bool"
  | Opt rx
  | Alt rx rx
  | Seq rx rx
  | Grp nat rx

type_synonym groups = "nat \<rightharpoonup> string"

text \<open>
  The matcher is the backtracking matcher of Python's \<open>re\<close>. \<open>rx_k r k s c\<close> matches
  \<open>r\<close> at the start of \<open>s\<close> and hands the rest of the input and the groups to the
  continuation \<open>k\<close>, which matches what follows; where \<open>k\<close> fails, the next way of
  matching \<open>r\<close> is tried. A greedy repetition tries the longest run first, a lazy one
  the shortest.
\<close>

primrec star_k :: "(char \<Rightarrow> bool) \<Rightarrow> (string \<Rightarrow> 'a option) \<Rightarrow> string \<Rightarrow> 'a option" where
  "star_k p k [] = k []"
| "star_k p k (x # xs) =
     (if p x then (case star_k p k xs of None \<Rightarrow> k (x # xs) | Some res \<Rightarrow> Some res)
      else k (x # xs))"

primrec lazy_k :: "(char \<Rightarrow> bool) \<Rightarrow> (string \<Rightarrow> 'a option) \<Rightarrow> string \<Rightarrow> 'a option" where
  "lazy_k p k [] = k []"
| "lazy_k p k (x # xs) =
     (case k (x # xs) of
        None \<Rightarrow> if p x then lazy_k p k xs else None
      | Some res \<Rightarrow> Some res)"

primrec rx_k :: "rx \<Rightarrow> (string \<Rightarrow> groups \<Rightarrow> 'a option) \<Rightarrow> string \<Rightarrow> groups \<Rightarrow> 'a option" where
  "rx_k Eps k s c = k s c"
| "rx_k (Lit l) k s c = (case strip_prefix l s of None \<Rightarrow> None | Some s' \<Rightarrow> k s' c)"
| "rx_k (LitI l) k s c = (case strip_prefix_ci l s of None \<Rightarrow> None | Some s' \<Rightarrow> k s' c)"
| "rx_k (Cls p) k s c = (case s of [] \<Rightarrow> None | x # xs \<Rightarrow> if p x then k xs c else None)"
| "rx_k (Star p) k s c = star_k p (\<lambda>s'. k s' c) s"
| "rx_k (Plus p) k s c =
     (case s of [] \<Rightarrow> None | x # xs \<Rightarrow> if p x then star_k p (\<lambda>s'. k s' c) xs else None)"
| "rx_k (StarLazy p) k s c = lazy_k p (\<lambda>s'. k s' c) s"
| "rx_k (Opt r) k s c = (case rx_k r k s c of None \<Rightarrow> k s c | Some res \<Rightarrow> Some res)"
| "rx_k (Alt r1 r2) k s c =
     (case rx_k r1 k s c of None \<Rightarrow> rx_k r2 k s c | Some res \<Rightarrow> Some res)"
| "rx_k (Seq r1 r2) k s c = rx_k r1 (rx_k r2 k) s c"
| "rx_k (Grp i r) k s c =
     rx_k r (\<lambda>s' c'. k s' (c'(i \<mapsto> take (length s - length s') s))) s c"

definition rx_seq :: "rx list \<Rightarrow> rx" where
  "rx_seq rs = foldr Seq rs Eps"

text \<open>\<open>re.match\<close>: the match at the start of the string, as rest and groups.\<close>

definition re_match :: "rx \<Rightarrow> string \<Rightarrow> (string \<times> groups) option" where
  "re_match r s = rx_k r (\<lambda>s' c. Some (s', c)) s Map.empty"

text \<open>\<open>re.search\<close>: the match at the leftmost position that has one.\<close>

primrec re_search :: "rx \<Rightarrow> string \<Rightarrow> (string \<times> groups) option" where
  "re_search r [] = re_match r []"
| "re_search r (x # xs) =
     (case re_match r (x # xs) of None \<Rightarrow> re_search r xs | Some m \<Rightarrow> Some m)"

text \<open>
  \<open>finditer\<close>: the matches from left to right, each search starting where the match
  before ended (one character further on after an empty match).
\<close>

fun re_finditer :: "rx \<Rightarrow> string \<Rightarrow> groups list" where
  "re_finditer r [] = (case re_match r [] of None \<Rightarrow> [] | Some (s', c) \<Rightarrow> [c])"
| "re_finditer r (x # xs) =
     (case re_match r (x # xs) of
        None \<Rightarrow> re_finditer r xs
      | Some (s', c) \<Rightarrow>
          c # (if length s' < Suc (length xs) then re_finditer r s' else re_finditer r xs))"

text \<open>\<open>m.group(i)\<close> of a group that took part in the match.\<close>

definition group :: "groups \<Rightarrow> nat \<Rightarrow> string" where
  "group c i = (case c i of None \<Rightarrow> [] | Some g \<Rightarrow> g)"

section \<open>The surface and position classifier\<close>

text \<open>The pattern \<open>plane(\d+)\<close>.\<close>

definition plane_number_pattern :: rx where
  "plane_number_pattern = rx_seq [Lit ''plane'', Grp 1 (Plus is_digit)]"

text \<open>
  The last tiers of \<open>determine_plane_position\<close>: the number after "plane", then the
  axis words, then the name itself.
\<close>

definition plane_words :: "string \<Rightarrow> string \<Rightarrow> string" where
  "plane_words feature_name fname =
     (if py_in ''plane'' fname then
        (if any_in [''+z'', ''positive'', ''high''] fname then ''top face''
         else if any_in [''-z'', ''negative'', ''low''] fname then ''bottom face''
         else ''planar surface'')
      else feature_name)"

definition plane_number_tiers :: "string \<Rightarrow> string \<Rightarrow> py_error + string" where
  "plane_number_tiers feature_name fname =
     (case map (\<lambda>c. group c 1) (re_finditer plane_number_pattern fname) of
        [] \<Rightarrow> Inr (plane_words feature_name fname)
      | n # plane_numbers \<Rightarrow>
          (case py_int n of
             Inl e \<Rightarrow> Inl e
           | Inr plane_num \<Rightarrow>
               if plane_num = 1 then Inr ''bottom face''
               else if 2 \<le> plane_num then Inr ''top face''
               else Inr (plane_words feature_name fname)))"

text \<open>
  \<open>determine_plane_position(feature_name, datum_letter=None)\<close>; \<open>None\<close> is Python's
  \<open>None\<close>. The third parameter of the source, \<open>plane_data\<close>, is never read.
\<close>

definition determine_plane_position :: "string option \<Rightarrow> string option \<Rightarrow> py_error + string" where
  "determine_plane_position feature_name datum_letter =
     (case feature_name of
        None \<Rightarrow> Inr ''surface''
      | Some name \<Rightarrow>
          if name = [] then Inr ''surface''
          else
            let fname = lower name in
            if any_in [''top'', ''upper'', ''above''] fname then Inr ''top face''
            else if any_in [''bottom'', ''lower'', ''below'', ''base''] fname then Inr ''bottom face''
            else if datum_letter \<noteq> None \<and> datum_letter \<noteq> Some [] then
              (let datum_upper = upper (the datum_letter) in
               if datum_upper = ''A'' then
                 (if any_in [''top'', ''upper''] fname then Inr ''top face''
                  else Inr ''bottom face'')
               else if datum_upper \<in> set [''B'', ''C''] then Inr ''cylindrical side''
               else if datum_upper = ''D'' then Inr ''top face''
               else if datum_upper \<in> set [''E'', ''F'', ''G'', ''H''] then
                 Inr (if datum_upper \<in> set [''E'', ''G''] then ''top face'' else ''bottom face'')
               else plane_number_tiers name fname)
            else if py_in ''plane1'' fname then Inr ''bottom face''
            else if py_in ''plane2'' fname then Inr ''top face''
            else plane_number_tiers name fname)"


section \<open>More string methods\<close>

definition apostrophe :: string where
  "apostrophe = [CHR 0x27]"

text \<open>\<open>str.strip()\<close>.\<close>

definition strip :: "string \<Rightarrow> string" where
  "strip s = rev (dropWhile is_space (rev (dropWhile is_space s)))"

text \<open>
  \<open>str.splitlines()\<close>: a line ends at LF, VT, FF, CR, FS, GS or RS, and CR LF is one
  line end; there is no empty last line after a final line end.
\<close>

definition is_linebreak :: "char \<Rightarrow> bool" where
  "is_linebreak c = char_in c [CHR 0x0A, CHR 0x0D, CHR 0x0B, CHR 0x0C, CHR 0x1C, CHR 0x1D, CHR 0x1E]"

function splitlines :: "string \<Rightarrow> string list" where
  "splitlines text =
     (if text = [] then []
      else
        (let line = takeWhile (\<lambda>c. \<not> is_linebreak c) text;
             rest = dropWhile (\<lambda>c. \<not> is_linebreak c) text
         in line #
            (case rest of
               [] \<Rightarrow> []
             | x # rest' \<Rightarrow>
                 (case rest' of
                    [] \<Rightarrow> []
                  | y # rest'' \<Rightarrow>
                      if x = CHR 0x0D \<and> y = CHR 0x0A then splitlines rest''
                      else splitlines rest'))))"
  by pat_completeness auto
termination
proof (relation "measure length", goal_cases)
  case 1
  show ?case by simp
next
  case (2 s line rest x rest' y rest'')
  then have "dropWhile (\<lambda>c. \<not> is_linebreak c) s = x # y # rest''"
    by simp
  then have "Suc (Suc (length rest'')) \<le> length s"
    using length_dropWhile_le [of "\<lambda>c. \<not> is_linebreak c" s] by simp
  then show ?case by simp
next
  case (3 s line rest x rest' y rest'')
  then have "dropWhile (\<lambda>c. \<not> is_linebreak c) s = x # rest'"
    by simp
  then have "Suc (length rest') \<le> length s"
    using length_dropWhile_le [of "\<lambda>c. \<not> is_linebreak c" s] by simp
  then show ?case by simp
qed

text \<open>\<open>str.capitalize()\<close> and \<open>str.title()\<close>.\<close>

definition capitalize :: "string \<Rightarrow> string" where
  "capitalize s = (case s of [] \<Rightarrow> [] | x # xs \<Rightarrow> upper_char x # lower xs)"

primrec title_from :: "bool \<Rightarrow> string \<Rightarrow> string" where
  "title_from previous_is_cased [] = []"
| "title_from previous_is_cased (x # xs) =
     (if is_upper x \<or> is_lower x then
        (if previous_is_cased then lower_char x else upper_char x) # title_from True xs
      else x # title_from False xs)"

definition title :: "string \<Rightarrow> string" where
  "title s = title_from False s"

text \<open>The decimal digits of an integer that is not negative, as \<open>str\<close> writes them.\<close>

function int_digits :: "int \<Rightarrow> string" where
  "int_digits n =
     (if n < 10 then [digit_chars ! nat n]
      else int_digits (n div 10) @ [digit_chars ! nat (n mod 10)])"
  by pat_completeness auto
termination
  by (relation "measure nat") auto

section \<open>Dictionaries and sorting\<close>

text \<open>
  A Python \<open>dict\<close> keeps its keys in the order of their first insertion, and the source
  iterates over its dictionaries, so a dictionary is an association list:
  \<open>map_of d k\<close> reads a key, \<open>AList.update k v d\<close> writes one (in place when the key is
  there, at the end otherwise), \<open>map fst d\<close> are the keys in order.
\<close>

type_synonym dict = "(string \<times> string) list"

definition dict_get :: "dict \<Rightarrow> string \<Rightarrow> string \<Rightarrow> string" where
  "dict_get d k dflt = (case map_of d k of None \<Rightarrow> dflt | Some v \<Rightarrow> v)"

definition dict_keys :: "dict \<Rightarrow> string list" where
  "dict_keys d = map fst d"

text \<open>The order of Python on strings, and \<open>sorted\<close>.\<close>

fun str_le :: "string \<Rightarrow> string \<Rightarrow> bool" where
  "str_le [] ys = True"
| "str_le (x # xs) [] = False"
| "str_le (x # xs) (y # ys) =
     ((of_char x :: nat) < of_char y \<or> (x = y \<and> str_le xs ys))"

primrec insert_sorted :: "string \<Rightarrow> string list \<Rightarrow> string list" where
  "insert_sorted k [] = [k]"
| "insert_sorted k (x # xs) = (if str_le k x then k # x # xs else x # insert_sorted k xs)"

definition py_sorted :: "string list \<Rightarrow> string list" where
  "py_sorted ks = foldr insert_sorted ks []"

text \<open>The first result of a loop that returns from its body.\<close>

primrec first_some :: "('a \<Rightarrow> 'b option) \<Rightarrow> 'a list \<Rightarrow> 'b option" where
  "first_some f [] = None"
| "first_some f (x # xs) = (case f x of None \<Rightarrow> first_some f xs | Some y \<Rightarrow> Some y)"

section \<open>Matching a dimension to a datum\<close>

text \<open>The patterns \<open>datum\d+@[^(]*\(([A-Z])\)\<close> and \<open>\(([A-Z])\)\<close>.\<close>

definition datum_ref_pattern :: rx where
  "datum_ref_pattern =
     rx_seq [Lit ''datum'', Plus is_digit, Lit ''@'', Star (\<lambda>c. c \<noteq> CHR ''(''),
             Lit ''('', Grp 1 (Cls is_upper), Lit '')'']"

definition paren_letter_pattern :: rx where
  "paren_letter_pattern = rx_seq [Lit ''('', Grp 1 (Cls is_upper), Lit '')'']"

text \<open>
  The loops over \<open>datum_results.items()\<close> that return the first letter whose location
  is cylindrical, or is a face or a plane.
\<close>

definition first_cylindrical :: "dict \<Rightarrow> string option" where
  "first_cylindrical datum_results =
     map_option fst (List.find (\<lambda>(datum_letter, location). py_in ''cylindrical'' (lower location))
                       datum_results)"

definition first_planar :: "dict \<Rightarrow> string option" where
  "first_planar datum_results =
     map_option fst (List.find (\<lambda>(datum_letter, location). any_in [''face'', ''plane''] (lower location))
                       datum_results)"

text \<open>
  Each method of \<open>find_datum_for_dimensional_tolerance\<close> gives \<open>Some\<close> letter when it
  returns and \<open>None\<close> when control falls through to the next method.
\<close>

definition datum_method1 :: "string \<Rightarrow> string option" where
  "datum_method1 fname =
     (case re_search datum_ref_pattern fname of
        None \<Rightarrow> None
      | Some (rest, c) \<Rightarrow> Some (group c 1))"

definition datum_method2 :: "string \<Rightarrow> dict \<Rightarrow> string option" where
  "datum_method2 fname datum_results =
     (case re_search paren_letter_pattern fname of
        None \<Rightarrow> None
      | Some (rest, c) \<Rightarrow>
          (let candidate_datum = group c 1
           in if candidate_datum \<in> set (dict_keys datum_results) then Some candidate_datum
              else None))"

text \<open>
  \<open>datum_letters[plane_num - 1]\<close> under the test \<open>plane_num <= len(datum_letters)\<close>.
  A negative index counts from the end, so for \<open>plane_num = 0\<close> the index \<open>-1\<close> is
  the last letter, and an index outside the list is an IndexError.
\<close>

definition nth_plane_datum :: "int \<Rightarrow> string list \<Rightarrow> py_error + string option" where
  "nth_plane_datum plane_num datum_letters =
     (if plane_num \<le> int (length datum_letters) then
        (let n = int (length datum_letters);
             i = plane_num - 1;
             j = (if i < 0 then n + i else i)
         in if 0 \<le> j \<and> j < n then Inr (Some (datum_letters ! nat j)) else Inl IndexError)
      else Inr None)"

definition datum_method3 :: "string \<Rightarrow> dict \<Rightarrow> py_error + string option" where
  "datum_method3 fname datum_results =
     (if py_in ''boss'' fname \<or> py_in ''cylinder'' fname then
        (case first_cylindrical datum_results of
           Some datum_letter \<Rightarrow> Inr (Some datum_letter)
         | None \<Rightarrow>
             (case datum_results of
                [] \<Rightarrow> Inr None
              | (datum_letter, location) # _ \<Rightarrow> Inr (Some datum_letter)))
      else if py_in ''plane'' fname then
        (case (case re_search plane_number_pattern fname of
                 None \<Rightarrow> Inr None
               | Some (rest, c) \<Rightarrow>
                   (case py_int (group c 1) of
                      Inl e \<Rightarrow> Inl e
                    | Inr plane_num \<Rightarrow>
                        nth_plane_datum plane_num (py_sorted (dict_keys datum_results)))) of
           Inl e \<Rightarrow> Inl e
         | Inr (Some datum_letter) \<Rightarrow> Inr (Some datum_letter)
         | Inr None \<Rightarrow> Inr (first_planar datum_results))
      else Inr None)"

definition datum_method4 :: "string \<Rightarrow> dict \<Rightarrow> string option" where
  "datum_method4 fname datum_letter_to_feature =
     map_option fst
       (List.find
          (\<lambda>(datum_letter, datum_feature_name).
             let datum_feature_lower = lower datum_feature_name
             in (py_in ''boss'' fname \<and> py_in ''boss'' datum_feature_lower)
              \<or> (py_in ''plane1'' fname \<and> py_in ''plane1'' datum_feature_lower)
              \<or> (py_in ''plane2'' fname \<and> py_in ''plane2'' datum_feature_lower)
              \<or> (py_in ''plane'' fname \<and> py_in ''plane'' datum_feature_lower))
          datum_letter_to_feature)"

definition datum_method5 :: "string \<Rightarrow> dict \<Rightarrow> string" where
  "datum_method5 fname datum_results =
     (case datum_results of
        [] \<Rightarrow> []
      | (first_letter, location) # _ \<Rightarrow>
          (if any_in [''boss'', ''cylinder'', ''diameter''] fname then
             (if ''A'' \<in> set (dict_keys datum_results) then ''A''
              else (case first_cylindrical datum_results of
                      Some datum_letter \<Rightarrow> datum_letter
                    | None \<Rightarrow> first_letter))
           else if any_in [''plane'', ''length'', ''distance''] fname then
             (if ''A'' \<in> set (dict_keys datum_results) then ''A''
              else (case first_planar datum_results of
                      Some datum_letter \<Rightarrow> datum_letter
                    | None \<Rightarrow> first_letter))
           else first_letter))"

definition find_datum_for_dimensional_tolerance ::
    "string \<Rightarrow> dict \<Rightarrow> dict \<Rightarrow> py_error + string" where
  "find_datum_for_dimensional_tolerance feature_name datum_results datum_letter_to_feature =
     (if feature_name = [] then Inr []
      else
        let fname = lower feature_name in
        (case datum_method1 fname of
           Some datum_letter \<Rightarrow> Inr datum_letter
         | None \<Rightarrow>
        (case datum_method2 fname datum_results of
           Some datum_letter \<Rightarrow> Inr datum_letter
         | None \<Rightarrow>
        (case datum_method3 fname datum_results of
           Inl e \<Rightarrow> Inl e
         | Inr (Some datum_letter) \<Rightarrow> Inr datum_letter
         | Inr None \<Rightarrow>
        (case datum_method4 fname datum_letter_to_feature of
           Some datum_letter \<Rightarrow> Inr datum_letter
         | None \<Rightarrow> Inr (datum_method5 fname datum_results))))))"

section \<open>Python floats\<close>

text \<open>
  A Python \<open>float\<close> is an IEEE 754 binary64 number. \<open>Finite m e\<close> is the number
  \<open>m * 2 ^ e\<close>, kept in the form that the format stores: \<open>2 ^ 52 \<le> \<bar>m\<bar> < 2 ^ 53\<close> and
  \<open>- 1074 \<le> e \<le> 971\<close> for a normal number, \<open>e = - 1074\<close> and \<open>\<bar>m\<bar> < 2 ^ 52\<close> for a
  subnormal one, and \<open>Finite 0 0\<close> for \<open>0.0\<close>. Arithmetic rounds to the nearest
  number of the format, ties to the even mantissa.
\<close>

datatype pyfloat = Finite int int | NegZero | PosInf | NegInf | NaN

text \<open>
  The numerators and denominators are integers, never negative; \<open>bit_length n\<close> is
  the number of binary digits of \<open>n\<close>.
\<close>

function bit_length :: "int \<Rightarrow> nat" where
  "bit_length n = (if n \<le> 0 then 0 else Suc (bit_length (n div 2)))"
  by pat_completeness auto
termination
  by (relation "measure nat") auto

text \<open>The fraction \<open>n / d\<close> rounded to the nearest integer, ties to even.\<close>

definition round_half_even :: "int \<Rightarrow> int \<Rightarrow> int" where
  "round_half_even n d =
     (let q = n div d; r = n mod d
      in if d < 2 * r \<or> (2 * r = d \<and> odd q) then q + 1 else q)"

definition signed_zero :: "bool \<Rightarrow> pyfloat" where
  "signed_zero negative = (if negative then NegZero else Finite 0 0)"

definition signed_inf :: "bool \<Rightarrow> pyfloat" where
  "signed_inf negative = (if negative then NegInf else PosInf)"

text \<open>
  The float nearest to the fraction \<open>p / q\<close> (with \<open>0 < q\<close>), negated when \<open>negative\<close>.
  \<open>fl\<close> is the integer part of the binary logarithm of \<open>p / q\<close>.
\<close>

definition round_double :: "bool \<Rightarrow> int \<Rightarrow> int \<Rightarrow> pyfloat" where
  "round_double negative p q =
     (if p = 0 then signed_zero negative
      else
        let d = int (bit_length p) - int (bit_length q);
            fl = (if q * 2 ^ nat d \<le> p * 2 ^ nat (- d) then d else d - 1);
            e = max (fl - 52) (- 1074);
            m0 = round_half_even (p * 2 ^ nat (- e)) (q * 2 ^ nat e);
            m = (if m0 = 2 ^ 53 then 2 ^ 52 else m0);
            e' = (if m0 = 2 ^ 53 then e + 1 else e)
        in if m = 0 then signed_zero negative
           else if 971 < e' then signed_inf negative
           else Finite (if negative then - m else m) e')"

fun float_neg :: "pyfloat \<Rightarrow> pyfloat" where
  "float_neg (Finite m e) = (if m = 0 then NegZero else Finite (- m) e)"
| "float_neg NegZero = Finite 0 0"
| "float_neg PosInf = NegInf"
| "float_neg NegInf = PosInf"
| "float_neg NaN = NaN"

fun float_abs :: "pyfloat \<Rightarrow> pyfloat" where
  "float_abs (Finite m e) = Finite \<bar>m\<bar> e"
| "float_abs NegZero = Finite 0 0"
| "float_abs PosInf = PosInf"
| "float_abs NegInf = PosInf"
| "float_abs NaN = NaN"

fun float_add :: "pyfloat \<Rightarrow> pyfloat \<Rightarrow> pyfloat" where
  "float_add NaN y = NaN"
| "float_add x NaN = NaN"
| "float_add PosInf NegInf = NaN"
| "float_add NegInf PosInf = NaN"
| "float_add PosInf y = PosInf"
| "float_add NegInf y = NegInf"
| "float_add x PosInf = PosInf"
| "float_add x NegInf = NegInf"
| "float_add NegZero y = y"
| "float_add x NegZero = x"
| "float_add (Finite m1 e1) (Finite m2 e2) =
     (let e = min e1 e2;
          s = m1 * 2 ^ nat (e1 - e) + m2 * 2 ^ nat (e2 - e)
      in if s = 0 then Finite 0 0
         else round_double (s < 0) (\<bar>s\<bar> * 2 ^ nat e) (2 ^ nat (- e)))"

definition float_sub :: "pyfloat \<Rightarrow> pyfloat \<Rightarrow> pyfloat" where
  "float_sub x y = float_add x (float_neg y)"

text \<open>\<open>x / 2\<close>.\<close>

fun float_half :: "pyfloat \<Rightarrow> pyfloat" where
  "float_half (Finite m e) =
     (if m = 0 then Finite 0 0
      else round_double (m < 0) (\<bar>m\<bar> * 2 ^ nat (e - 1)) (2 ^ nat (1 - e)))"
| "float_half x = x"

text \<open>The truth value of a float: zero is false.\<close>

definition float_truthy :: "pyfloat \<Rightarrow> bool" where
  "float_truthy x = (x \<noteq> Finite 0 0 \<and> x \<noteq> NegZero)"

text \<open>\<open>f"{x:.3f}"\<close>: the exact value rounded to three decimals, ties to even.\<close>

definition three_digits :: "int \<Rightarrow> string" where
  "three_digits k =
     [digit_chars ! nat (k div 100), digit_chars ! nat (k div 10 mod 10),
      digit_chars ! nat (k mod 10)]"

fun format_3f :: "pyfloat \<Rightarrow> string" where
  "format_3f (Finite m e) =
     (let n = round_half_even (\<bar>m\<bar> * 1000 * 2 ^ nat e) (2 ^ nat (- e))
      in (if m < 0 then ''-'' else []) @ int_digits (n div 1000) @ ''.'' @ three_digits (n mod 1000))"
| "format_3f NegZero = ''-0.000''"
| "format_3f PosInf = ''inf''"
| "format_3f NegInf = ''-inf''"
| "format_3f NaN = ''nan''"

subsection \<open>Reading a float\<close>

text \<open>
  \<open>float(s)\<close>: blanks around, a sign, then \<open>inf\<close>, \<open>infinity\<close> or \<open>nan\<close> in any
  case, or a decimal number with an optional exponent, where single underscores may
  stand between digits. Anything else is a ValueError.
\<close>

definition is_float_blank :: "char \<Rightarrow> bool" where
  "is_float_blank c = char_in c [CHR 0x20, CHR 0x09, CHR 0x0A, CHR 0x0B, CHR 0x0C, CHR 0x0D]"

text \<open>
  The digits at the start of \<open>s\<close>, after a first digit, without their underscores, and
  the rest of \<open>s\<close>.
\<close>

fun digit_run :: "string \<Rightarrow> string \<times> string" where
  "digit_run [] = ([], [])"
| "digit_run (x # xs) =
     (if is_digit x then (case digit_run xs of (ds, rest) \<Rightarrow> (x # ds, rest))
      else if x = CHR ''_'' \<and> (case xs of [] \<Rightarrow> False | y # _ \<Rightarrow> is_digit y) then digit_run xs
      else ([], x # xs))"

definition digit_part :: "string \<Rightarrow> (string \<times> string) option" where
  "digit_part s = (case s of [] \<Rightarrow> None | x # xs \<Rightarrow> if is_digit x then Some (digit_run s) else None)"

text \<open>The mantissa digits, the number of them behind the point, and the rest.\<close>

definition mantissa_part :: "string \<Rightarrow> (string \<times> nat \<times> string) option" where
  "mantissa_part s =
     (case digit_part s of
        Some (ds, rest) \<Rightarrow>
          (case rest of
             [] \<Rightarrow> Some (ds, 0, [])
           | x # xs \<Rightarrow>
               if x = CHR ''.'' then
                 (case digit_part xs of
                    None \<Rightarrow> Some (ds, 0, xs)
                  | Some (fs, rest') \<Rightarrow> Some (ds @ fs, length fs, rest'))
               else Some (ds, 0, rest))
      | None \<Rightarrow>
          (case s of
             [] \<Rightarrow> None
           | x # xs \<Rightarrow>
               if x = CHR ''.'' then
                 (case digit_part xs of
                    None \<Rightarrow> None
                  | Some (fs, rest') \<Rightarrow> Some (fs, length fs, rest'))
               else None))"

text \<open>The exponent and the rest; \<open>None\<close> when an exponent begins and is not complete.\<close>

definition exponent_part :: "string \<Rightarrow> (int \<times> string) option" where
  "exponent_part s =
     (case s of
        [] \<Rightarrow> Some (0, [])
      | x # xs \<Rightarrow>
          if x = CHR ''e'' \<or> x = CHR ''E'' then
            (let negative = (case xs of [] \<Rightarrow> False | y # _ \<Rightarrow> y = CHR ''-'');
                 signed = (case xs of [] \<Rightarrow> False | y # _ \<Rightarrow> y = CHR ''-'' \<or> y = CHR ''+'');
                 ys = (if signed then tl xs else xs)
             in case digit_part ys of
                  None \<Rightarrow> None
                | Some (ds, rest) \<Rightarrow>
                    Some (if negative then - digits_value ds else digits_value ds, rest))
          else Some (0, s))"

text \<open>The float nearest to \<open>n * 10 ^ k\<close>.\<close>

definition float_of_decimal :: "bool \<Rightarrow> int \<Rightarrow> int \<Rightarrow> pyfloat" where
  "float_of_decimal negative n k =
     (if 0 \<le> k then round_double negative (n * 10 ^ nat k) 1
      else round_double negative n (10 ^ nat (- k)))"

definition py_float :: "string \<Rightarrow> py_error + pyfloat" where
  "py_float s =
     (let t = rev (dropWhile is_float_blank (rev (dropWhile is_float_blank s)));
          negative = (case t of [] \<Rightarrow> False | x # _ \<Rightarrow> x = CHR ''-'');
          signed = (case t of [] \<Rightarrow> False | x # _ \<Rightarrow> x = CHR ''-'' \<or> x = CHR ''+'');
          u = (if signed then tl t else t)
      in if lower u = ''inf'' \<or> lower u = ''infinity'' then Inr (signed_inf negative)
         else if lower u = ''nan'' then Inr NaN
         else
           (case mantissa_part u of
              None \<Rightarrow> Inl ValueError
            | Some (ds, frac_len, rest) \<Rightarrow>
                (case exponent_part rest of
                   None \<Rightarrow> Inl ValueError
                 | Some (ex, rest') \<Rightarrow>
                     if rest' = [] then
                       Inr (float_of_decimal negative (digits_value ds) (ex - int frac_len))
                     else Inl ValueError)))"

subsection \<open>Writing a float\<close>

text \<open>
  \<open>str(x)\<close> is the shortest decimal numeral that reads back as \<open>x\<close>: the value is
  rounded to 1, 2, ... significant digits until the result reads back. \<open>dec_exponent p q\<close>
  is the integer part of the decimal logarithm of \<open>p / q\<close>.
\<close>

definition dec_exponent :: "int \<Rightarrow> int \<Rightarrow> int" where
  "dec_exponent p q =
     (let d = int (length (int_digits p)) - int (length (int_digits q))
      in if q * 10 ^ nat d \<le> p * 10 ^ nat (- d) then d else d - 1)"

text \<open>\<open>p / q\<close> rounded to \<open>n\<close> significant digits: the integer of the digits.\<close>

definition significant_digits :: "nat \<Rightarrow> int \<Rightarrow> int \<Rightarrow> int" where
  "significant_digits n p q =
     (let s = int n - 1 - dec_exponent p q
      in round_half_even (p * 10 ^ nat s) (q * 10 ^ nat (- s)))"

definition reads_back :: "nat \<Rightarrow> int \<Rightarrow> int \<Rightarrow> bool" where
  "reads_back n p q =
     (float_of_decimal False (significant_digits n p q) (dec_exponent p q + 1 - int n)
      = round_double False p q)"

definition shortest_digits :: "int \<Rightarrow> int \<Rightarrow> nat" where
  "shortest_digits p q =
     (case List.find (\<lambda>n. reads_back n p q) [1 ..< 17] of None \<Rightarrow> 17 | Some n \<Rightarrow> n)"

text \<open>
  The digits without zeros at the end, and \<open>decpt\<close>, the place of the point after the
  first \<open>decpt\<close> digits. The exponent form is used when \<open>decpt\<close> is above 16 or below -3.
\<close>

definition repr_digits :: "string \<Rightarrow> int \<Rightarrow> string" where
  "repr_digits ds decpt =
     (if decpt \<le> - 4 \<or> 16 < decpt then
        (let ex = decpt - 1; ex_digits = int_digits \<bar>ex\<bar>
         in take 1 ds @ (if 1 < length ds then ''.'' @ drop 1 ds else [])
            @ ''e'' @ (if ex < 0 then ''-'' else ''+'')
            @ (if length ex_digits < 2 then ''0'' else []) @ ex_digits)
      else if decpt \<le> 0 then ''0.'' @ replicate (nat (- decpt)) (CHR ''0'') @ ds
      else if int (length ds) \<le> decpt then
        ds @ replicate (nat decpt - length ds) (CHR ''0'') @ ''.0''
      else take (nat decpt) ds @ ''.'' @ drop (nat decpt) ds)"

definition repr_positive :: "int \<Rightarrow> int \<Rightarrow> string" where
  "repr_positive p q =
     (let n = shortest_digits p q;
          all_digits = int_digits (significant_digits n p q);
          decpt = int (length all_digits) + (dec_exponent p q + 1 - int n);
          ds = rev (dropWhile (\<lambda>c. c = CHR ''0'') (rev all_digits))
      in repr_digits ds decpt)"

fun float_str :: "pyfloat \<Rightarrow> string" where
  "float_str (Finite m e) =
     (if m = 0 then ''0.0''
      else (if m < 0 then ''-'' else []) @ repr_positive (\<bar>m\<bar> * 2 ^ nat e) (2 ^ nat (- e)))"
| "float_str NegZero = ''-0.0''"
| "float_str PosInf = ''inf''"
| "float_str NegInf = ''-inf''"
| "float_str NaN = ''nan''"

section \<open>The entity index and the datums\<close>

text \<open>The pattern \<open>(#\d+)\s*=\<close>, and the index from entity ids to their lines.\<close>

definition entity_id :: rx where
  "entity_id = Seq (Lit ''#'') (Plus is_digit)"

definition entity_head_pattern :: rx where
  "entity_head_pattern = rx_seq [Grp 1 entity_id, Star is_space, Lit ''='']"

definition index_line :: "string \<Rightarrow> dict \<Rightarrow> dict" where
  "index_line line line_dict =
     (case re_match entity_head_pattern line of
        None \<Rightarrow> line_dict
      | Some (rest, c) \<Rightarrow> AList.update (group c 1) (strip line) line_dict)"

definition build_line_dict :: "string list \<Rightarrow> dict" where
  "build_line_dict lines = fold index_line lines []"

text \<open>The pattern \<open>#(\d+)=DATUM\('([^']*)',\$,#\d+,\.F\.,'([A-Z])'\);\<close>.\<close>

definition not_apostrophe :: "char \<Rightarrow> bool" where
  "not_apostrophe c = (c \<noteq> CHR 0x27)"

definition datum_line_pattern :: rx where
  "datum_line_pattern =
     rx_seq [Lit ''#'', Grp 1 (Plus is_digit), Lit ''=DATUM('', Lit apostrophe,
             Grp 2 (Star not_apostrophe), Lit ''',$,#'', Plus is_digit, Lit '',.F.,'',
             Lit apostrophe, Grp 3 (Cls is_upper), Lit ''');'']"

text \<open>The pattern \<open>@([^(]+)\<close>.\<close>

definition feature_token_pattern :: rx where
  "feature_token_pattern = rx_seq [Lit ''@'', Grp 1 (Plus (\<lambda>c. c \<noteq> CHR ''(''))]"

text \<open>
  The location that the datum loop stores for a datum: by the feature token behind the
  "@" of the feature name, in lower case, or by the whole name when there is no token.
\<close>

definition feature_location :: "string \<Rightarrow> string \<Rightarrow> py_error + string" where
  "feature_location geometric_feature datum_letter =
     (if py_in ''boss'' geometric_feature then Inr ''cylindrical side''
      else if py_in ''plane1'' geometric_feature then Inr ''bottom face''
      else if py_in ''plane2'' geometric_feature then Inr ''top face''
      else if py_in ''plane'' geometric_feature then
        determine_plane_position (Some geometric_feature) (Some datum_letter)
      else Inr geometric_feature)"

definition datum_location :: "string \<Rightarrow> string \<Rightarrow> py_error + string" where
  "datum_location feature_name datum_letter =
     (case re_search feature_token_pattern feature_name of
        Some (rest, c) \<Rightarrow> feature_location (lower (group c 1)) datum_letter
      | None \<Rightarrow> determine_plane_position (Some feature_name) (Some datum_letter))"

text \<open>
  The state of the datum loop is the pair of \<open>datum_results\<close> (letter to location) and
  \<open>datum_letter_to_feature\<close> (letter to feature name). The source also fills
  \<open>datum_id_to_letter\<close>, which nothing reads.
\<close>

definition datum_line :: "string \<Rightarrow> dict \<times> dict \<Rightarrow> py_error + dict \<times> dict" where
  "datum_line line st =
     (case st of (datum_results, datum_letter_to_feature) \<Rightarrow>
      (case re_match datum_line_pattern line of
         None \<Rightarrow> Inr st
       | Some (rest, c) \<Rightarrow>
           (let feature_name = group c 2; datum_letter = group c 3
            in case datum_location feature_name datum_letter of
                 Inl e \<Rightarrow> Inl e
               | Inr location \<Rightarrow>
                   Inr (AList.update datum_letter location datum_results,
                        AList.update datum_letter feature_name datum_letter_to_feature))))"

primrec datum_scan :: "string list \<Rightarrow> dict \<times> dict \<Rightarrow> py_error + dict \<times> dict" where
  "datum_scan [] st = Inr st"
| "datum_scan (line # lines) st =
     (case datum_line line st of Inl e \<Rightarrow> Inl e | Inr st' \<Rightarrow> datum_scan lines st')"

section \<open>The shape aspects\<close>

text \<open>The pattern \<open>#\d+\s*=\s*SHAPE_ASPECT\('([^']*?)\((\w)?'?,.*?#(\d+)\)\<close>.\<close>

definition shape_aspect_pattern :: rx where
  "shape_aspect_pattern =
     rx_seq [Lit ''#'', Plus is_digit, Star is_space, Lit ''='', Star is_space,
             Lit ''SHAPE_ASPECT('', Lit apostrophe, Grp 1 (StarLazy not_apostrophe), Lit ''('',
             Opt (Grp 2 (Cls is_word)), Opt (Lit apostrophe), Lit '','',
             StarLazy (\<lambda>c. c \<noteq> CHR 0x0A), Lit ''#'', Grp 3 (Plus is_digit), Lit '')'']"

definition shape_location :: "string \<Rightarrow> string" where
  "shape_location shape_name =
     (if py_in ''plane1'' shape_name then ''Plane1''
      else if py_in ''plane2'' shape_name then ''Plane2''
      else if py_in ''boss1'' shape_name then ''Boss1''
      else if py_in ''torus'' shape_name then ''torus side''
      else if py_in ''top'' shape_name then ''top face''
      else if py_in ''bottom'' shape_name then ''bottom face''
      else if py_in ''cylindrical'' shape_name \<or> py_in ''side'' shape_name then ''cylindrical side''
      else [])"

text \<open>
  One match of the shape-aspect loop. The source also fills \<open>face_to_plane\<close>, which
  nothing reads. Group 2 is absent when the optional \<open>(\w)?\<close> matched nothing.
\<close>

definition shape_aspect_match :: "groups \<Rightarrow> dict \<Rightarrow> dict" where
  "shape_aspect_match c datum_results =
     (let shape_name = lower (group c 1); location = shape_location shape_name
      in case c 2 of
           None \<Rightarrow> datum_results
         | Some datum_letter \<Rightarrow>
             if datum_letter = [] then datum_results
             else AList.update datum_letter location datum_results)"

definition shape_aspect_scan :: "string \<Rightarrow> dict \<Rightarrow> dict" where
  "shape_aspect_scan text datum_results =
     fold shape_aspect_match (re_finditer shape_aspect_pattern text) datum_results"

section \<open>The geometric tolerances\<close>

text \<open>
  The pattern \<open>(#\d+)\s*=\s*(CYLINDRICITY|FLATNESS|STRAIGHTNESS|ROUNDNESS)_TOLERANCE\(\s*'([^']*)'\s*,\s*''\s*,\s*(#\d+)\<close>,
  compiled with \<open>re.IGNORECASE\<close>.
\<close>

definition tol_pattern :: rx where
  "tol_pattern =
     rx_seq [Grp 1 entity_id, Star is_space, Lit ''='', Star is_space,
             Grp 2 (Alt (LitI ''CYLINDRICITY'') (Alt (LitI ''FLATNESS'')
                     (Alt (LitI ''STRAIGHTNESS'') (LitI ''ROUNDNESS'')))),
             LitI ''_TOLERANCE('', Star is_space, Lit apostrophe, Grp 3 (Star not_apostrophe),
             Lit apostrophe, Star is_space, Lit '','', Star is_space, Lit apostrophe,
             Lit apostrophe, Star is_space, Lit '','', Star is_space, Grp 4 entity_id]"

text \<open>The pattern \<open>(?:LENGTH_MEASURE|VALUE_REPRESENTATION_ITEM)\s*\(\s*([\d.]+)\<close>.\<close>

definition value_pattern :: rx where
  "value_pattern =
     rx_seq [Alt (Lit ''LENGTH_MEASURE'') (Lit ''VALUE_REPRESENTATION_ITEM''), Star is_space,
             Lit ''('', Star is_space, Grp 1 (Plus (\<lambda>c. is_digit c \<or> c = CHR ''.''))]"

text \<open>The patterns \<open>#(\d+)\<close> and \<open>DATUM_FEATURE\([^']*'[^']*\(([A-Z])\)'\<close>.\<close>

definition entity_ref_pattern :: rx where
  "entity_ref_pattern = rx_seq [Lit ''#'', Grp 1 (Plus is_digit)]"

definition datum_feature_pattern :: rx where
  "datum_feature_pattern =
     rx_seq [Lit ''DATUM_FEATURE('', Star not_apostrophe, Lit apostrophe, Star not_apostrophe,
             Lit ''('', Grp 1 (Cls is_upper), Lit '')'', Lit apostrophe]"

text \<open>
  The methods of the loop body work on the pair \<open>(datum_letter, location)\<close>, both
  empty at first.

  Method 1: a capital letter in parentheses in the name of the tolerance.
\<close>

definition tol_method1 :: "string \<Rightarrow> dict \<Rightarrow> string \<times> string" where
  "tol_method1 tol_name datum_results =
     (case re_search paren_letter_pattern tol_name of
        None \<Rightarrow> ([], [])
      | Some (rest, c) \<Rightarrow> (group c 1, dict_get datum_results (group c 1) []))"

text \<open>
  Method 2: the first known datum letter found in parentheses in the name, in either
  case. The letter is a key, so \<open>datum_results[d_letter]\<close> is there.
\<close>

definition tol_method2 :: "string \<Rightarrow> dict \<Rightarrow> string \<times> string \<Rightarrow> string \<times> string" where
  "tol_method2 tol_name datum_results st =
     (case st of (datum_letter, location) \<Rightarrow>
      if datum_letter = [] then
        (case List.find (\<lambda>d_letter.
                  py_in (''('' @ lower d_letter @ '')'') (lower tol_name) \<or>
                  py_in (''('' @ upper d_letter @ '')'') tol_name) (dict_keys datum_results) of
           None \<Rightarrow> st
         | Some d_letter \<Rightarrow> (d_letter, dict_get datum_results d_letter []))
      else st)"

text \<open>
  Method 3: the first DATUM_FEATURE line that mentions an entity of the tolerance's line
  and carries a capital letter in parentheses.
\<close>

definition datum_feature_letter :: "string list \<Rightarrow> string \<Rightarrow> string option" where
  "datum_feature_letter lines entity_ref =
     first_some (\<lambda>line.
        if py_in ''DATUM_FEATURE'' line \<and> py_in (''#'' @ entity_ref) line then
          (case re_search datum_feature_pattern line of
             None \<Rightarrow> None
           | Some (rest, c) \<Rightarrow> Some (group c 1))
        else None) lines"

definition tol_method3 ::
    "string \<Rightarrow> string list \<Rightarrow> dict \<Rightarrow> dict \<Rightarrow> string \<times> string \<Rightarrow> string \<times> string" where
  "tol_method3 tol_id lines line_dict datum_results st =
     (case st of (datum_letter, location) \<Rightarrow>
      if datum_letter = [] then
        (let tol_line = dict_get line_dict tol_id [];
             entity_refs = map (\<lambda>c. group c 1) (re_finditer entity_ref_pattern tol_line)
         in case first_some (datum_feature_letter lines) entity_refs of
              None \<Rightarrow> st
            | Some d_letter \<Rightarrow> (d_letter, dict_get datum_results d_letter []))
      else st)"

text \<open>
  Method 4: a feature word in the name gives the location, and the first datum whose
  feature name has the same word gives the letter when there is none yet.
\<close>

definition datum_with_feature :: "string \<Rightarrow> dict \<Rightarrow> string \<Rightarrow> string" where
  "datum_with_feature word datum_letter_to_feature datum_letter =
     (if datum_letter = [] then
        (case List.find (\<lambda>(d_letter, d_feature). py_in word (lower d_feature))
                datum_letter_to_feature of
           None \<Rightarrow> datum_letter
         | Some (d_letter, d_feature) \<Rightarrow> d_letter)
      else datum_letter)"

definition tol_method4 :: "string \<Rightarrow> dict \<Rightarrow> string \<times> string \<Rightarrow> string \<times> string" where
  "tol_method4 tol_name datum_letter_to_feature st =
     (case st of (datum_letter, location) \<Rightarrow>
      if location = [] then
        (let tol_name_lower = lower tol_name
         in if py_in ''boss'' tol_name_lower then
              (datum_with_feature ''boss'' datum_letter_to_feature datum_letter, ''cylindrical side'')
            else if py_in ''plane1'' tol_name_lower then
              (datum_with_feature ''plane1'' datum_letter_to_feature datum_letter, ''bottom face'')
            else if py_in ''plane2'' tol_name_lower then
              (datum_with_feature ''plane2'' datum_letter_to_feature datum_letter, ''top face'')
            else if py_in ''plane'' tol_name_lower then (datum_letter, ''planar surface'')
            else st)
      else st)"

text \<open>Method 5: the first datum whose location is compatible with the location found.\<close>

definition planar_locations :: "string list" where
  "planar_locations = [''bottom face'', ''top face'', ''planar surface'']"

definition tol_method5 :: "dict \<Rightarrow> string \<times> string \<Rightarrow> string \<times> string" where
  "tol_method5 datum_results st =
     (case st of (datum_letter, location) \<Rightarrow>
      if datum_letter = [] \<and> location \<noteq> [] then
        (case List.find (\<lambda>d_letter.
                  let d_location = dict_get datum_results d_letter []
                  in (location = ''cylindrical side'' \<and> d_location = ''cylindrical side'') \<or>
                     (location \<in> set planar_locations \<and> d_location \<in> set planar_locations))
                (dict_keys datum_results) of
           None \<Rightarrow> st
         | Some d_letter \<Rightarrow> (d_letter, location))
      else st)"

text \<open>
  Method 6, when there is still no location: by the kind of tolerance.
  \<open>current_count\<close> is \<open>len(tol_results)\<close>, the number of rows before this one.
\<close>

definition tol_method6 :: "string \<Rightarrow> dict \<Rightarrow> nat \<Rightarrow> string \<times> string \<Rightarrow> string \<times> string" where
  "tol_method6 label datum_results current_count st =
     (case st of (datum_letter, location) \<Rightarrow>
      if location = [] then
        (if lower label \<in> set [''cylindricity'', ''circularity''] then
           (case List.find (\<lambda>d_letter. dict_get datum_results d_letter [] = ''cylindrical side'')
                   (dict_keys datum_results) of
              None \<Rightarrow> (datum_letter, ''cylindrical side'')
            | Some d_letter \<Rightarrow> (d_letter, ''cylindrical side''))
         else if lower label \<in> set [''flatness''] then
           (case List.find (\<lambda>d_letter. py_in ''face'' (dict_get datum_results d_letter []))
                   (dict_keys datum_results) of
              None \<Rightarrow> (datum_letter, ''planar surface'')
            | Some d_letter \<Rightarrow> (d_letter, dict_get datum_results d_letter []))
         else if lower label \<in> set [''straightness''] then
           (let available_datums = dict_keys datum_results
            in if available_datums \<noteq> [] then
                 (if current_count < length available_datums then
                    (let d_letter = available_datums ! (current_count mod length available_datums)
                     in (d_letter, dict_get datum_results d_letter []))
                  else
                    (let d_letter = available_datums ! 0
                     in (d_letter, dict_get datum_results d_letter [])))
               else st)
         else st)
      else st)"

text \<open>
  A row of \<open>tol_results\<close>: label, value, datum letter, location and three empty fields.
\<close>

type_synonym tol_row = "string \<times> string \<times> string \<times> string \<times> string \<times> string \<times> string"

definition tol_datum :: "tol_row \<Rightarrow> string" where
  "tol_datum r = (case r of (label, value, datum_letter, location, tv, ul, ll) \<Rightarrow> datum_letter)"

definition tol_label :: "string \<Rightarrow> string" where
  "tol_label tol_type = (if upper tol_type = ''ROUNDNESS'' then ''Circularity'' else capitalize tol_type)"

definition tol_value :: "dict \<Rightarrow> string \<Rightarrow> string" where
  "tol_value line_dict ref_id =
     (case re_search value_pattern (dict_get line_dict ref_id []) of
        None \<Rightarrow> ''N/A''
      | Some (rest, c) \<Rightarrow> group c 1)"

definition resolve_datum ::
    "string \<Rightarrow> string \<Rightarrow> string \<Rightarrow> string list \<Rightarrow> dict \<Rightarrow> dict \<Rightarrow> dict \<Rightarrow> nat \<Rightarrow> string \<times> string" where
  "resolve_datum tol_id label tol_name lines line_dict datum_results datum_letter_to_feature
       current_count =
     tol_method6 label datum_results current_count
       (tol_method5 datum_results
          (tol_method4 tol_name datum_letter_to_feature
             (tol_method3 tol_id lines line_dict datum_results
                (tol_method2 tol_name datum_results
                   (tol_method1 tol_name datum_results)))))"

definition tol_match ::
    "string list \<Rightarrow> dict \<Rightarrow> dict \<Rightarrow> dict \<Rightarrow> groups \<Rightarrow> tol_row list \<Rightarrow> tol_row list" where
  "tol_match lines line_dict datum_results datum_letter_to_feature c tol_results =
     (let tol_id = group c 1; tol_type = group c 2; tol_name = group c 3; ref_id = group c 4;
          value = tol_value line_dict ref_id;
          label = tol_label tol_type;
          (datum_letter, location) =
             resolve_datum tol_id label tol_name lines line_dict datum_results
               datum_letter_to_feature (length tol_results)
      in tol_results @ [(label, value, datum_letter, location, [], [], [])])"

definition tolerance_scan ::
    "string \<Rightarrow> string list \<Rightarrow> dict \<Rightarrow> dict \<Rightarrow> dict \<Rightarrow> tol_row list" where
  "tolerance_scan text lines line_dict datum_results datum_letter_to_feature =
     fold (tol_match lines line_dict datum_results datum_letter_to_feature)
       (re_finditer tol_pattern text) []"

section \<open>The dimensional tolerances\<close>

text \<open>
  The display symbols of the source, \<open>self.gdnt_symbols\<close>. Each symbol is the three
  characters U+201A, U+00xx, U+00xx that the source file holds, in UTF-8.
\<close>

definition gdnt_symbols :: dict where
  "gdnt_symbols =
     [(''Straightness'', [CHR 0xE2, CHR 0x80, CHR 0x9A, CHR 0xC3, CHR 0xAE, CHR 0xC3, CHR 0x84]),
      (''Flatness'', [CHR 0xE2, CHR 0x80, CHR 0x9A, CHR 0xC3, CHR 0xB2, CHR 0xC3, CHR 0xAA]),
      (''Circularity'', [CHR 0xE2, CHR 0x80, CHR 0x9A, CHR 0xC3, CHR 0xB3, CHR 0xC3, CHR 0xA3]),
      (''Cylindricity'', [CHR 0xE2, CHR 0x80, CHR 0x9A, CHR 0xC3, CHR 0xA5, CHR 0xC3, CHR 0x84]),
      (''Diameter'', [CHR 0xE2, CHR 0x80, CHR 0x9A, CHR 0xC3, CHR 0xA5, CHR 0xC3, CHR 0x84]),
      (''Length'', [CHR 0xE2, CHR 0x80, CHR 0x9A, CHR 0xC3, CHR 0x9C, CHR 0xC3, CHR 0xAE]),
      (''Linear Distance'', [CHR 0xE2, CHR 0x80, CHR 0x9A, CHR 0xC3, CHR 0x9C, CHR 0xC3, CHR 0xAE])]"

text \<open>
  The prefix of a tolerance range in the source's f-string, the two characters U+00AC
  and U+00B1, in UTF-8.
\<close>

definition range_prefix :: string where
  "range_prefix = [CHR 0xC2, CHR 0xAC, CHR 0xC2, CHR 0xB1]"

text \<open>The plus-minus sign U+00B1 alone, in UTF-8.\<close>

definition plus_minus_sign :: string where
  "plus_minus_sign = [CHR 0xC2, CHR 0xB1]"

text \<open>A row of the result: type, value, datum, location, surface, range, upper, lower.\<close>

type_synonym row =
  "string \<times> string \<times> string \<times> string \<times> string \<times> string \<times> string \<times> string"

definition row_type :: "row \<Rightarrow> string" where
  "row_type r = (case r of (t, v, d, l, s, tr, ul, ll) \<Rightarrow> t)"

definition row_value :: "row \<Rightarrow> string" where
  "row_value r = (case r of (t, v, d, l, s, tr, ul, ll) \<Rightarrow> v)"

definition row_datum :: "row \<Rightarrow> string" where
  "row_datum r = (case r of (t, v, d, l, s, tr, ul, ll) \<Rightarrow> d)"

definition row_location :: "row \<Rightarrow> string" where
  "row_location r = (case r of (t, v, d, l, s, tr, ul, ll) \<Rightarrow> l)"

definition row_surface :: "row \<Rightarrow> string" where
  "row_surface r = (case r of (t, v, d, l, s, tr, ul, ll) \<Rightarrow> s)"

definition row_range :: "row \<Rightarrow> string" where
  "row_range r = (case r of (t, v, d, l, s, tr, ul, ll) \<Rightarrow> tr)"

definition row_upper :: "row \<Rightarrow> string" where
  "row_upper r = (case r of (t, v, d, l, s, tr, ul, ll) \<Rightarrow> ul)"

definition row_lower :: "row \<Rightarrow> string" where
  "row_lower r = (case r of (t, v, d, l, s, tr, ul, ll) \<Rightarrow> ll)"

text \<open>
  The patterns of \<open>extract_dimensional_tolerances\<close>, all compiled with
  \<open>re.IGNORECASE\<close>:
  \<open>(#\d+)\s*=\s*DIMENSIONAL_SIZE\s*\(\s*(#\d+)\s*,\s*'([^']*)'\s*\)\<close>,
  \<open>(#\d+)\s*=\s*DIMENSIONAL_LOCATION\s*\(\s*'([^']*)'[^#]*#(\d+)[^#]*#(\d+)\<close>,
  \<open>(#\d+)\s*=\s*PLUS_MINUS_TOLERANCE\s*\(\s*(#\d+)\s*,\s*(#\d+)\s*\)\<close>,
  \<open>(#\d+)\s*=\s*TOLERANCE_VALUE\s*\(\s*(#\d+)\s*,\s*(#\d+)\s*\)\<close>,
  \<open>(#\d+)\s*=.*?LENGTH_MEASURE\(([^)]+)\)\<close> and
  \<open>POSITIVE_LENGTH_MEASURE\(([^)]+)\)\<close>.
\<close>

definition dimensional_size_pattern :: rx where
  "dimensional_size_pattern =
     rx_seq [Grp 1 entity_id, Star is_space, Lit ''='', Star is_space, LitI ''DIMENSIONAL_SIZE'',
             Star is_space, Lit ''('', Star is_space, Grp 2 entity_id, Star is_space, Lit '','',
             Star is_space, Lit apostrophe, Grp 3 (Star not_apostrophe), Lit apostrophe,
             Star is_space, Lit '')'']"

definition not_hash :: "char \<Rightarrow> bool" where
  "not_hash c = (c \<noteq> CHR ''#'')"

definition dimensional_location_pattern :: rx where
  "dimensional_location_pattern =
     rx_seq [Grp 1 entity_id, Star is_space, Lit ''='', Star is_space,
             LitI ''DIMENSIONAL_LOCATION'', Star is_space, Lit ''('', Star is_space,
             Lit apostrophe, Grp 2 (Star not_apostrophe), Lit apostrophe,
             Star not_hash, Lit ''#'', Grp 3 (Plus is_digit),
             Star not_hash, Lit ''#'', Grp 4 (Plus is_digit)]"

definition two_refs_pattern :: "string \<Rightarrow> rx" where
  "two_refs_pattern keyword =
     rx_seq [Grp 1 entity_id, Star is_space, Lit ''='', Star is_space, LitI keyword,
             Star is_space, Lit ''('', Star is_space, Grp 2 entity_id, Star is_space, Lit '','',
             Star is_space, Grp 3 entity_id, Star is_space, Lit '')'']"

definition plus_minus_tolerance_pattern :: rx where
  "plus_minus_tolerance_pattern = two_refs_pattern ''PLUS_MINUS_TOLERANCE''"

definition tolerance_value_pattern :: rx where
  "tolerance_value_pattern = two_refs_pattern ''TOLERANCE_VALUE''"

definition not_close_paren :: "char \<Rightarrow> bool" where
  "not_close_paren c = (c \<noteq> CHR '')'')"

definition length_measure_pattern :: rx where
  "length_measure_pattern =
     rx_seq [Grp 1 entity_id, Star is_space, Lit ''='', StarLazy (\<lambda>c. c \<noteq> CHR 0x0A),
             LitI ''LENGTH_MEASURE('', Grp 2 (Plus not_close_paren), Lit '')'']"

definition nominal_value_pattern :: rx where
  "nominal_value_pattern =
     rx_seq [LitI ''POSITIVE_LENGTH_MEASURE('', Grp 1 (Plus not_close_paren), Lit '')'']"

text \<open>
  The LENGTH_MEASURE values by entity id; a value that \<open>float\<close> refuses is skipped.
\<close>

definition length_measure_match :: "groups \<Rightarrow> (string \<times> pyfloat) list \<Rightarrow> (string \<times> pyfloat) list" where
  "length_measure_match c length_measures =
     (case py_float (group c 2) of
        Inl e \<Rightarrow> length_measures
      | Inr x \<Rightarrow> AList.update (group c 1) x length_measures)"

definition length_measures_of :: "string \<Rightarrow> (string \<times> pyfloat) list" where
  "length_measures_of text = fold length_measure_match (re_finditer length_measure_pattern text) []"

definition nominal_value_line :: "string \<Rightarrow> (string \<times> pyfloat) list \<Rightarrow> (string \<times> pyfloat) list" where
  "nominal_value_line line nominal_values =
     (case re_search nominal_value_pattern line of
        None \<Rightarrow> nominal_values
      | Some (rest, c) \<Rightarrow>
          (case re_match entity_head_pattern line of
             None \<Rightarrow> nominal_values
           | Some (rest', c') \<Rightarrow>
               (case py_float (group c 1) of
                  Inl e \<Rightarrow> nominal_values
                | Inr x \<Rightarrow> AList.update (group c' 1) x nominal_values)))"

definition nominal_values_of :: "string list \<Rightarrow> (string \<times> pyfloat) list" where
  "nominal_values_of lines = fold nominal_value_line lines []"

text \<open>
  The TOLERANCE_VALUE entities, as lower value, upper value and range. A reference
  without a LENGTH_MEASURE counts as the integer 0, which behaves as \<open>0.0\<close> in the
  subtraction, the division and the additions that follow.
\<close>

definition tolerance_value_match ::
    "(string \<times> pyfloat) list \<Rightarrow> groups \<Rightarrow> (string \<times> pyfloat \<times> pyfloat \<times> pyfloat) list
     \<Rightarrow> (string \<times> pyfloat \<times> pyfloat \<times> pyfloat) list" where
  "tolerance_value_match length_measures c tolerance_values =
     (let lower_value = (case map_of length_measures (group c 2) of None \<Rightarrow> Finite 0 0 | Some x \<Rightarrow> x);
          upper_value = (case map_of length_measures (group c 3) of None \<Rightarrow> Finite 0 0 | Some x \<Rightarrow> x)
      in AList.update (group c 1)
           (lower_value, upper_value, float_abs (float_sub upper_value lower_value))
           tolerance_values)"

definition tolerance_values_of ::
    "string \<Rightarrow> (string \<times> pyfloat) list \<Rightarrow> (string \<times> pyfloat \<times> pyfloat \<times> pyfloat) list" where
  "tolerance_values_of text length_measures =
     fold (tolerance_value_match length_measures) (re_finditer tolerance_value_pattern text) []"

text \<open>The PLUS_MINUS_TOLERANCE entities: from the dimension to its tolerance value.\<close>

definition plus_minus_match :: "groups \<Rightarrow> dict \<Rightarrow> dict" where
  "plus_minus_match c dimension_to_tolerance =
     AList.update (group c 3) (group c 2) dimension_to_tolerance"

definition dimension_to_tolerance_of :: "string \<Rightarrow> dict" where
  "dimension_to_tolerance_of text =
     fold plus_minus_match (re_finditer plus_minus_tolerance_pattern text) []"

text \<open>
  The patterns \<open>SHAPE_ASPECT\s*\(\s*'([^']*)'\<close>, \<open>#(\d+)\)\<close> and \<open>\(#(\d+)\)\<close>.
\<close>

definition shape_name_pattern :: rx where
  "shape_name_pattern =
     rx_seq [Lit ''SHAPE_ASPECT'', Star is_space, Lit ''('', Star is_space, Lit apostrophe,
             Grp 1 (Star not_apostrophe), Lit apostrophe]"

definition last_ref_pattern :: rx where
  "last_ref_pattern = rx_seq [Lit ''#'', Grp 1 (Plus is_digit), Lit '')'']"

definition single_ref_pattern :: rx where
  "single_ref_pattern = rx_seq [Lit ''(#'', Grp 1 (Plus is_digit), Lit '')'']"

definition shape_feature_name :: "dict \<Rightarrow> string \<Rightarrow> string" where
  "shape_feature_name line_dict shape_aspect_ref =
     (case re_search shape_name_pattern (dict_get line_dict shape_aspect_ref []) of
        None \<Rightarrow> []
      | Some (rest, c) \<Rightarrow> group c 1)"

text \<open>
  The nominal value of a dimension, \<open>None\<close> for the empty string of the source: every
  line that names the dimension and a DIMENSIONAL_CHARACTERISTIC_REPRESENTATION and
  leads to a reference sets it anew.
\<close>

definition nominal_line ::
    "string \<Rightarrow> dict \<Rightarrow> (string \<times> pyfloat) list \<Rightarrow> string \<Rightarrow> pyfloat option \<Rightarrow> pyfloat option" where
  "nominal_line dim_id line_dict nominal_values line current =
     (if py_in dim_id line \<and> py_in ''DIMENSIONAL_CHARACTERISTIC_REPRESENTATION'' line then
        (case re_search last_ref_pattern line of
           None \<Rightarrow> current
         | Some (rest, c) \<Rightarrow>
             (case re_search single_ref_pattern (dict_get line_dict (''#'' @ group c 1) []) of
                None \<Rightarrow> current
              | Some (rest', c') \<Rightarrow> map_of nominal_values (''#'' @ group c' 1)))
      else current)"

definition nominal_of ::
    "string \<Rightarrow> string list \<Rightarrow> dict \<Rightarrow> (string \<times> pyfloat) list \<Rightarrow> pyfloat option" where
  "nominal_of dim_id lines line_dict nominal_values =
     fold (nominal_line dim_id line_dict nominal_values) lines None"

text \<open>The value column: \<open>str(value) if value else "N/A"\<close>.\<close>

definition nominal_str :: "pyfloat option \<Rightarrow> string" where
  "nominal_str nominal =
     (case nominal of
        None \<Rightarrow> ''N/A''
      | Some x \<Rightarrow> if float_truthy x then float_str x else ''N/A'')"

text \<open>The tolerance range and the upper and lower limit of a dimension.\<close>

definition tolerance_fields ::
    "string \<Rightarrow> dict \<Rightarrow> (string \<times> pyfloat \<times> pyfloat \<times> pyfloat) list \<Rightarrow> pyfloat option
     \<Rightarrow> string \<times> string \<times> string" where
  "tolerance_fields dim_id dimension_to_tolerance tolerance_values nominal =
     (case map_of dimension_to_tolerance dim_id of
        None \<Rightarrow> ([], [], [])
      | Some tol_val_id \<Rightarrow>
          (case map_of tolerance_values tol_val_id of
             None \<Rightarrow> ([], [], [])
           | Some (lower_value, upper_value, range_value) \<Rightarrow>
               (let tolerance_range = range_prefix @ format_3f (float_half range_value)
                in case nominal of
                     None \<Rightarrow> (tolerance_range, [], [])
                   | Some nom_val \<Rightarrow>
                       if float_truthy nom_val then
                         (tolerance_range,
                          format_3f (float_add nom_val upper_value),
                          format_3f (float_add nom_val lower_value))
                       else (tolerance_range, [], []))))"

text \<open>One DIMENSIONAL_SIZE match: a diameter row.\<close>

definition dimensional_size_row ::
    "string list \<Rightarrow> dict \<Rightarrow> dict \<Rightarrow> dict \<Rightarrow> (string \<times> pyfloat) list \<Rightarrow> dict
     \<Rightarrow> (string \<times> pyfloat \<times> pyfloat \<times> pyfloat) list \<Rightarrow> groups \<Rightarrow> py_error + row" where
  "dimensional_size_row lines line_dict datum_results datum_letter_to_feature nominal_values
       dimension_to_tolerance tolerance_values c =
     (let dim_size_id = group c 1; shape_aspect_ref = group c 2;
          feature_name = shape_feature_name line_dict shape_aspect_ref;
          diameter_value = nominal_of dim_size_id lines line_dict nominal_values;
          (tolerance_range, upper_limit, lower_limit) =
             tolerance_fields dim_size_id dimension_to_tolerance tolerance_values diameter_value
      in case find_datum_for_dimensional_tolerance feature_name datum_results
                datum_letter_to_feature of
           Inl e \<Rightarrow> Inl e
         | Inr datum_letter \<Rightarrow>
             (let location = (if py_in ''boss'' (lower feature_name) then ''cylindrical side''
                              else ''cylindrical surface'');
                  surface = ''curved side of the cylinder'';
                  symbol = dict_get gdnt_symbols ''Diameter''
                             [CHR 0xE2, CHR 0x80, CHR 0x9A, CHR 0xC3, CHR 0xA5, CHR 0xC3, CHR 0x84];
                  type_with_symbol = symbol @ '' Diameter''
              in Inr (type_with_symbol, nominal_str diameter_value, datum_letter, location,
                      surface, tolerance_range, upper_limit, lower_limit)))"

text \<open>
  The datum of a DIMENSIONAL_LOCATION: by the first feature name, then the second,
  then "name1 to name2".
\<close>

definition location_datum :: "string \<Rightarrow> string \<Rightarrow> dict \<Rightarrow> dict \<Rightarrow> py_error + string" where
  "location_datum feature_name1 feature_name2 datum_results datum_letter_to_feature =
     (case (if feature_name1 \<noteq> [] then
              find_datum_for_dimensional_tolerance feature_name1 datum_results
                datum_letter_to_feature
            else Inr []) of
        Inl e \<Rightarrow> Inl e
      | Inr datum_letter1 \<Rightarrow>
          (case (if datum_letter1 = [] \<and> feature_name2 \<noteq> [] then
                   find_datum_for_dimensional_tolerance feature_name2 datum_results
                     datum_letter_to_feature
                 else Inr datum_letter1) of
             Inl e \<Rightarrow> Inl e
           | Inr datum_letter2 \<Rightarrow>
               if datum_letter2 = [] then
                 find_datum_for_dimensional_tolerance (feature_name1 @ '' to '' @ feature_name2)
                   datum_results datum_letter_to_feature
               else Inr datum_letter2))"

text \<open>One DIMENSIONAL_LOCATION match: a length row.\<close>

definition dimensional_location_row ::
    "string list \<Rightarrow> dict \<Rightarrow> dict \<Rightarrow> dict \<Rightarrow> (string \<times> pyfloat) list \<Rightarrow> dict
     \<Rightarrow> (string \<times> pyfloat \<times> pyfloat \<times> pyfloat) list \<Rightarrow> groups \<Rightarrow> py_error + row" where
  "dimensional_location_row lines line_dict datum_results datum_letter_to_feature nominal_values
       dimension_to_tolerance tolerance_values c =
     (let dim_loc_id = group c 1; distance_type = group c 2;
          feature_name1 = shape_feature_name line_dict (''#'' @ group c 3);
          feature_name2 = shape_feature_name line_dict (''#'' @ group c 4);
          distance_value = nominal_of dim_loc_id lines line_dict nominal_values;
          (tolerance_range, upper_limit, lower_limit) =
             tolerance_fields dim_loc_id dimension_to_tolerance tolerance_values distance_value
      in case location_datum feature_name1 feature_name2 datum_results datum_letter_to_feature of
           Inl e \<Rightarrow> Inl e
         | Inr datum_letter \<Rightarrow>
             (let planes = (feature_name1 \<noteq> [] \<and> feature_name2 \<noteq> [] \<and>
                            py_in ''plane'' (lower feature_name1) \<and>
                            py_in ''plane'' (lower feature_name2));
                  location = (if planes then ''between planes'' else ''between surfaces'');
                  surface = (if planes then ''planar faces'' else ''linear distance'');
                  symbol = dict_get gdnt_symbols ''Linear Distance''
                             [CHR 0xE2, CHR 0x80, CHR 0x9A, CHR 0xC3, CHR 0x9C, CHR 0xC3, CHR 0xAE];
                  type_with_symbol = (if distance_type \<noteq> [] then symbol @ '' '' @ title distance_type
                                      else symbol @ '' Length'')
              in Inr (type_with_symbol, nominal_str distance_value, datum_letter, location,
                      surface, tolerance_range, upper_limit, lower_limit)))"

text \<open>A loop whose body may raise: the rows in order, or the first exception.\<close>

primrec map_rows :: "('a \<Rightarrow> py_error + 'b) \<Rightarrow> 'a list \<Rightarrow> py_error + 'b list" where
  "map_rows f [] = Inr []"
| "map_rows f (x # xs) =
     (case f x of
        Inl e \<Rightarrow> Inl e
      | Inr y \<Rightarrow> (case map_rows f xs of Inl e \<Rightarrow> Inl e | Inr ys \<Rightarrow> Inr (y # ys)))"

text \<open>
  The body of \<open>extract_dimensional_tolerances\<close> inside its \<open>try\<close>, and the function
  itself, which returns no rows at all when the body raises.
\<close>

definition dimensional_rows :: "string \<Rightarrow> dict \<Rightarrow> dict \<Rightarrow> dict \<Rightarrow> py_error + row list" where
  "dimensional_rows text line_dict datum_results datum_letter_to_feature =
     (let lines = splitlines text;
          length_measures = length_measures_of text;
          nominal_values = nominal_values_of lines;
          tolerance_values = tolerance_values_of text length_measures;
          dimension_to_tolerance = dimension_to_tolerance_of text
      in case map_rows (dimensional_size_row lines line_dict datum_results
                          datum_letter_to_feature nominal_values dimension_to_tolerance
                          tolerance_values)
                (re_finditer dimensional_size_pattern text) of
           Inl e \<Rightarrow> Inl e
         | Inr size_rows \<Rightarrow>
             (case map_rows (dimensional_location_row lines line_dict datum_results
                               datum_letter_to_feature nominal_values dimension_to_tolerance
                               tolerance_values)
                     (re_finditer dimensional_location_pattern text) of
                Inl e \<Rightarrow> Inl e
              | Inr location_rows \<Rightarrow> Inr (size_rows @ location_rows)))"

definition extract_dimensional_tolerances :: "string \<Rightarrow> dict \<Rightarrow> dict \<Rightarrow> dict \<Rightarrow> row list" where
  "extract_dimensional_tolerances text line_dict datum_results datum_letter_to_feature =
     (case dimensional_rows text line_dict datum_results datum_letter_to_feature of
        Inl e \<Rightarrow> []
      | Inr rows \<Rightarrow> rows)"

section \<open>The extraction\<close>

text \<open>A geometric row of the table, from a row of \<open>tol_results\<close>.\<close>

definition geometric_row :: "tol_row \<Rightarrow> row" where
  "geometric_row r =
     (case r of (label, value, datum, loc, tolerance_value, upper_limit, lower_limit) \<Rightarrow>
      (let symbol = dict_get gdnt_symbols label [];
           type_with_symbol = (if symbol \<noteq> [] then symbol @ '' '' @ label else label);
           location_str = (if loc \<noteq> [] then loc else ''surface'');
           surface = (if loc = ''cylindrical side'' then ''curved side of the cylinder''
                      else if loc = ''bottom face'' then ''bottom face''
                      else if loc = ''top face'' then ''top face''
                      else if loc = ''planar surface'' then ''planar face''
                      else if loc \<noteq> [] then loc else ''surface'')
       in (type_with_symbol, value, datum, location_str, surface, tolerance_value,
           upper_limit, lower_limit)))"

text \<open>The row of a datum, one for each key of \<open>datum_letter_to_feature\<close>.\<close>

definition datum_row :: "dict \<Rightarrow> string \<times> string \<Rightarrow> row" where
  "datum_row datum_results entry =
     (case entry of (d_letter, feature_name) \<Rightarrow>
      (let location_str = dict_get datum_results d_letter ''surface'';
           surface = location_str
       in (''Datum'', d_letter, d_letter, location_str, surface, [], [], [])))"

text \<open>
  The two datum dictionaries as they stand when the tolerances are read: after the
  datum loop and the shape-aspect loop.
\<close>

definition datum_maps :: "string \<Rightarrow> py_error + dict \<times> dict" where
  "datum_maps text =
     (case datum_scan (splitlines text) ([], []) of
        Inl e \<Rightarrow> Inl e
      | Inr (datum_results, datum_letter_to_feature) \<Rightarrow>
          Inr (shape_aspect_scan text datum_results, datum_letter_to_feature))"

text \<open>The rows of \<open>tol_results\<close> for a text, given its datum dictionaries.\<close>

definition tol_results_of :: "string \<Rightarrow> dict \<Rightarrow> dict \<Rightarrow> tol_row list" where
  "tol_results_of text datum_results datum_letter_to_feature =
     tolerance_scan text (splitlines text) (build_line_dict (splitlines text)) datum_results
       datum_letter_to_feature"

text \<open>
  The body of \<open>extract_tolerance_data\<close> inside its \<open>try\<close>, and the function itself,
  whose handler \<open>except Exception\<close> returns the empty list.
\<close>

definition extract_body :: "string \<Rightarrow> py_error + row list" where
  "extract_body text =
     (case datum_maps text of
        Inl e \<Rightarrow> Inl e
      | Inr (datum_results, datum_letter_to_feature) \<Rightarrow>
          (let tol_results = tol_results_of text datum_results datum_letter_to_feature;
               dimensional_tolerances =
                 extract_dimensional_tolerances text (build_line_dict (splitlines text))
                   datum_results datum_letter_to_feature
           in Inr (map geometric_row tol_results @ dimensional_tolerances
                   @ map (datum_row datum_results) datum_letter_to_feature)))"

definition extract_tolerance_data :: "string \<Rightarrow> row list" where
  "extract_tolerance_data text =
     (case extract_body text of Inl e \<Rightarrow> [] | Inr table_rows \<Rightarrow> table_rows)"

text \<open>A text from its lines, each ended by a line feed.\<close>

definition text_of_lines :: "string list \<Rightarrow> string" where
  "text_of_lines ls = concat (map (\<lambda>l. l @ [CHR 0x0A]) ls)"

section \<open>The table of main.py\<close>

text \<open>
  \<open>extract_tolerance_table\<close> of main.py is the older form of the extraction. Its entity
  index, its DATUM pattern (without the group around the id, which nothing reads), its
  datum loop, its shape-aspect loop, its tolerance pattern and its methods 1 and 2 are
  those of \<open>extract_tolerance_data\<close>, word for word, so the definitions above stand for
  both. Its tolerance loop has two more methods only, its rows have five fields, it has
  no dimensional rows, and no handler stands around its body: an exception leaves the
  function. The helpers that it defines after the loop are never called.
\<close>

text \<open>The dictionary \<open>gdnt_symbols\<close> of main.py: U+2500, U+2610, U+25CB and U+2300.\<close>

definition table_symbols :: dict where
  "table_symbols =
     [(''Straightness'', [CHR 0xE2, CHR 0x94, CHR 0x80]),
      (''Flatness'', [CHR 0xE2, CHR 0x98, CHR 0x90]),
      (''Circularity'', [CHR 0xE2, CHR 0x97, CHR 0x8B]),
      (''Cylindricity'', [CHR 0xE2, CHR 0x8C, CHR 0x80])]"

text \<open>Method 3 of main.py: a feature word in the name gives the location.\<close>

definition table_method3 :: "string \<Rightarrow> string \<times> string \<Rightarrow> string \<times> string" where
  "table_method3 tol_name st =
     (case st of (datum_letter, location) \<Rightarrow>
      if location = [] then
        (let tol_name_lower = lower tol_name
         in if py_in ''boss1'' tol_name_lower then (datum_letter, ''cylindrical side'')
            else if py_in ''plane1'' tol_name_lower then (datum_letter, ''bottom face'')
            else if py_in ''plane2'' tol_name_lower then (datum_letter, ''top face'')
            else if py_in ''plane'' tol_name_lower then (datum_letter, ''planar surface'')
            else st)
      else st)"

text \<open>
  Method 4 of main.py, when there is still no location: by the kind of tolerance. It
  never sets the datum letter.
\<close>

definition table_method4 :: "string \<Rightarrow> string \<times> string \<Rightarrow> string \<times> string" where
  "table_method4 label st =
     (case st of (datum_letter, location) \<Rightarrow>
      if location = [] then
        (if lower label \<in> set [''cylindricity'', ''circularity''] then
           (datum_letter, ''cylindrical side'')
         else if lower label \<in> set [''flatness''] then (datum_letter, ''planar surface'')
         else if lower label \<in> set [''straightness''] then (datum_letter, ''surface'')
         else st)
      else st)"

text \<open>A row of \<open>tol_results\<close> in main.py: label, value, datum letter and location.\<close>

type_synonym table_tol = "string \<times> string \<times> string \<times> string"

definition table_tol_datum :: "table_tol \<Rightarrow> string" where
  "table_tol_datum r = (case r of (label, value, datum_letter, location) \<Rightarrow> datum_letter)"

definition table_resolve :: "string \<Rightarrow> string \<Rightarrow> dict \<Rightarrow> string \<times> string" where
  "table_resolve label tol_name datum_results =
     table_method4 label
       (table_method3 tol_name
          (tol_method2 tol_name datum_results
             (tol_method1 tol_name datum_results)))"

definition table_match :: "dict \<Rightarrow> dict \<Rightarrow> groups \<Rightarrow> table_tol list \<Rightarrow> table_tol list" where
  "table_match line_dict datum_results c tol_results =
     (let tol_type = group c 2; tol_name = group c 3; ref_id = group c 4;
          value = tol_value line_dict ref_id;
          label = tol_label tol_type;
          (datum_letter, location) = table_resolve label tol_name datum_results
      in tol_results @ [(label, value, datum_letter, location)])"

definition table_scan :: "string \<Rightarrow> dict \<Rightarrow> dict \<Rightarrow> table_tol list" where
  "table_scan text line_dict datum_results =
     fold (table_match line_dict datum_results) (re_finditer tol_pattern text) []"

text \<open>
  The rows of the table: type with symbol, value, datum, location and surface. A row
  with a datum letter shows "at datum" and the letter as its location.
\<close>

type_synonym table_row = "string \<times> string \<times> string \<times> string \<times> string"

definition table_row_datum :: "table_row \<Rightarrow> string" where
  "table_row_datum r = (case r of (type_with_symbol, value, datum, location_str, surface) \<Rightarrow> datum)"

definition table_row_location :: "table_row \<Rightarrow> string" where
  "table_row_location r =
     (case r of (type_with_symbol, value, datum, location_str, surface) \<Rightarrow> location_str)"

definition table_tolerance_row :: "table_tol \<Rightarrow> table_row" where
  "table_tolerance_row r =
     (case r of (label, value, datum, loc) \<Rightarrow>
      (let symbol = dict_get table_symbols label [];
           type_with_symbol = (if symbol \<noteq> [] then symbol @ '' '' @ label else label);
           location_str = (if datum \<noteq> [] then ''at datum '' @ datum
                           else if loc \<noteq> [] then loc else ''surface'');
           surface = (if loc = ''cylindrical side'' then ''curved side of the cylinder''
                      else if loc = ''bottom face'' then ''bottom face''
                      else if loc = ''top face'' then ''top face''
                      else if loc = ''planar surface'' then ''planar face''
                      else if loc \<noteq> [] then loc else ''surface'')
       in (type_with_symbol, value, datum, location_str, surface)))"

definition table_datum_row :: "dict \<Rightarrow> string \<times> string \<Rightarrow> table_row" where
  "table_datum_row datum_results entry =
     (case entry of (d_letter, feature_name) \<Rightarrow>
      (let location_str = dict_get datum_results d_letter ''surface'';
           surface = location_str
       in (''Datum'', d_letter, d_letter, location_str, surface)))"

definition extract_tolerance_table :: "string \<Rightarrow> py_error + table_row list" where
  "extract_tolerance_table text =
     (case datum_maps text of
        Inl e \<Rightarrow> Inl e
      | Inr (datum_results, datum_letter_to_feature) \<Rightarrow>
          (let tol_results = table_scan text (build_line_dict (splitlines text)) datum_results
           in Inr (map table_tolerance_row tol_results
                   @ map (table_datum_row datum_results) datum_letter_to_feature)))"

section \<open>Example texts\<close>

text \<open>
  A datum A on a boss, a cylindricity tolerance named for it, and its value, a
  LENGTH_MEASURE of 0.05.
\<close>

definition cylindricity_text :: string where
  "cylindricity_text = text_of_lines
     [''#10=DATUM('Datum1@Boss1(A)',$,#1,.F.,'A');'',
      ''#20=CYLINDRICITY_TOLERANCE('Tol(A)','' @ apostrophe @ ''',#30);'',
      ''#30=LENGTH_MEASURE_WITH_UNIT(LENGTH_MEASURE(0.05),#40);'']"

text \<open>
  A diameter of the shape aspect "Boss1", with the nominal value 10.0 behind a
  DIMENSIONAL_CHARACTERISTIC_REPRESENTATION and a PLUS_MINUS_TOLERANCE whose
  TOLERANCE_VALUE names the LENGTH_MEASUREs -0.1 and 0.1.
\<close>

definition diameter_text :: string where
  "diameter_text = text_of_lines
     [''#50=SHAPE_ASPECT('Boss1','boss',#5,.T.);'',
      ''#60=DIMENSIONAL_SIZE(#50,'diameter');'',
      ''#61=LENGTH_MEASURE_WITH_UNIT(LENGTH_MEASURE(-0.1),#2);'',
      ''#62=LENGTH_MEASURE_WITH_UNIT(LENGTH_MEASURE(0.1),#2);'',
      ''#63=TOLERANCE_VALUE(#61,#62);'',
      ''#64=PLUS_MINUS_TOLERANCE(#63,#60);'',
      ''#70=DIMENSIONAL_CHARACTERISTIC_REPRESENTATION(#60,#71);'',
      ''#71=SHAPE_DIMENSION_REPRESENTATION('diameter',(#72),#3);'',
      ''#72=MEASURE_REPRESENTATION_ITEM('nominal value',POSITIVE_LENGTH_MEASURE(10.0),#2);'']"

text \<open>A flatness tolerance named for a datum Q in a text without datums.\<close>

definition unknown_datum_text :: string where
  "unknown_datum_text = text_of_lines
     [''#20=FLATNESS_TOLERANCE('Tol(Q)','' @ apostrophe @ ''',#30);'']"

text \<open>A shape aspect whose name opens a parenthesis with a small letter.\<close>

definition small_letter_text :: string where
  "small_letter_text = text_of_lines [''#1=SHAPE_ASPECT('x(b',$,#5)'']"

text \<open>Two datums and four straightness tolerances without any hint in their names.\<close>

definition straightness_text :: string where
  "straightness_text = text_of_lines
     [''#1=DATUM('D1@Pin1(A)',$,#1,.F.,'A');'',
      ''#2=DATUM('D2@Pin2(B)',$,#1,.F.,'B');'',
      ''#11=STRAIGHTNESS_TOLERANCE('s1','' @ apostrophe @ ''',#30);'',
      ''#12=STRAIGHTNESS_TOLERANCE('s2','' @ apostrophe @ ''',#30);'',
      ''#13=STRAIGHTNESS_TOLERANCE('s3','' @ apostrophe @ ''',#30);'',
      ''#14=STRAIGHTNESS_TOLERANCE('s4','' @ apostrophe @ ''',#30);'']"

text \<open>
  The line \<open>#id=DATUM('X@Y(L)',$,#ref,.F.,'L');\<close> of a datum with the letter \<open>L\<close>,
  the name prefix \<open>X\<close> and the feature token \<open>Y\<close>.
\<close>

definition datum_entity_line :: "string \<Rightarrow> string \<Rightarrow> string \<Rightarrow> char \<Rightarrow> string \<Rightarrow> string" where
  "datum_entity_line id_digits X Y l ref_digits =
     ''#'' @ id_digits @ ''=DATUM('' @ apostrophe @ X @ ''@'' @ Y @ ''('' @ [l] @ '')''
       @ apostrophe @ '',$,#'' @ ref_digits @ '',.F.,'' @ apostrophe @ [l] @ apostrophe @ '');''"


text \<open>
  A datum A on the first plane and a shape aspect whose name opens a parenthesis with
  a small letter.
\<close>

definition shape_letter_text :: string where
  "shape_letter_text = text_of_lines
     [''#1=DATUM('D1@Plane1(A)',$,#1,.F.,'A');'',
      ''#2=SHAPE_ASPECT('top(b',$,#5)'']"

section \<open>What a match says\<close>

text \<open>
  \<open>rx_sem r s c s' c'\<close>: the pattern \<open>r\<close> can match a prefix of \<open>s\<close>, with the groups
  \<open>c\<close> before it, so that \<open>s'\<close> is left of the input and \<open>c'\<close> are the groups after
  it. The matcher only ever finds such matches.
\<close>

primrec rx_sem :: "rx \<Rightarrow> string \<Rightarrow> groups \<Rightarrow> string \<Rightarrow> groups \<Rightarrow> bool" where
  "rx_sem Eps s c s' c' = (s' = s \<and> c' = c)"
| "rx_sem (Lit l) s c s' c' = (s = l @ s' \<and> c' = c)"
| "rx_sem (LitI l) s c s' c' =
     (\<exists>l'. s = l' @ s' \<and> length l' = length l \<and> lower l' = lower l \<and> c' = c)"
| "rx_sem (Cls p) s c s' c' = (\<exists>x. s = x # s' \<and> p x \<and> c' = c)"
| "rx_sem (Star p) s c s' c' = (\<exists>xs. s = xs @ s' \<and> list_all p xs \<and> c' = c)"
| "rx_sem (Plus p) s c s' c' = (\<exists>xs. s = xs @ s' \<and> xs \<noteq> [] \<and> list_all p xs \<and> c' = c)"
| "rx_sem (StarLazy p) s c s' c' = (\<exists>xs. s = xs @ s' \<and> list_all p xs \<and> c' = c)"
| "rx_sem (Opt r) s c s' c' = (rx_sem r s c s' c' \<or> (s' = s \<and> c' = c))"
| "rx_sem (Alt r1 r2) s c s' c' = (rx_sem r1 s c s' c' \<or> rx_sem r2 s c s' c')"
| "rx_sem (Seq r1 r2) s c s' c' = (\<exists>s1 c1. rx_sem r1 s c s1 c1 \<and> rx_sem r2 s1 c1 s' c')"
| "rx_sem (Grp i r) s c s' c' =
     (\<exists>c0. rx_sem r s c s' c0 \<and> c' = c0(i \<mapsto> take (length s - length s') s))"

text \<open>
  A datum letter is accounted for in a text when it is empty, or a key of the datum
  map, or a capital letter that stands in parentheses somewhere in the text.
\<close>

definition accounted :: "dict \<Rightarrow> string \<Rightarrow> string \<Rightarrow> bool" where
  "accounted datum_results inp d =
     (d = [] \<or> d \<in> set (dict_keys datum_results) \<or>
      ((\<exists>x. d = [x] \<and> is_upper x) \<and> py_in (''('' @ d @ '')'') inp))"

section \<open>Lemmas on strings and matching\<close>

lemma char_in_set: "char_in c cs \<longleftrightarrow> c \<in> set cs"
  by (induction cs) auto

lemma strip_prefix_Some: "strip_prefix l s = Some s' \<longleftrightarrow> s = l @ s'"
  by (induction l arbitrary: s) (auto split: list.splits)

lemma strip_prefix_append: "strip_prefix l (l @ s) = Some s"
  by (simp add: strip_prefix_Some)

lemma strip_prefix_ci_Some:
  "strip_prefix_ci l s = Some s' \<Longrightarrow>
     \<exists>l'. s = l' @ s' \<and> length l' = length l \<and> lower l' = lower l"
proof (induction l arbitrary: s)
  case Nil
  then show ?case by (simp add: lower_def)
next
  case (Cons x xs)
  then obtain y ys where s: "s = y # ys" and xy: "lower_char x = lower_char y"
      and rest: "strip_prefix_ci xs ys = Some s'"
    by (auto split: list.splits if_splits)
  from Cons.IH [OF rest] obtain l' where "ys = l' @ s'" "length l' = length xs"
      "lower l' = lower xs"
    by blast
  with s xy show ?case
    by (intro exI [of _ "y # l'"]) (simp add: lower_def)
qed

lemma py_in_sublist: "py_in sub s \<longleftrightarrow> sublist sub s"
proof (induction s)
  case Nil
  show ?case by simp
next
  case (Cons x xs)
  have "strip_prefix sub (x # xs) \<noteq> None \<longleftrightarrow> prefix sub (x # xs)"
    by (auto simp: strip_prefix_Some prefix_def)
  with Cons show ?case
    by (simp add: sublist_Cons_right)
qed

lemma any_in_iff: "any_in kws s \<longleftrightarrow> (\<exists>kw \<in> set kws. py_in kw s)"
  by (induction kws) auto

lemma star_k_sound:
  "star_k p k s = Some res \<Longrightarrow> \<exists>xs s'. s = xs @ s' \<and> list_all p xs \<and> k s' = Some res"
proof (induction s)
  case Nil
  then show ?case by simp
next
  case (Cons x s)
  show ?case
  proof (cases "p x \<and> star_k p k s = Some res")
    case True
    with Cons.IH obtain xs s' where "s = xs @ s'" "list_all p xs" "k s' = Some res"
      by blast
    with True show ?thesis
      by (intro exI [of _ "x # xs"] exI [of _ s']) simp
  next
    case False
    with Cons.prems have "k (x # s) = Some res"
      by (auto split: if_splits option.splits)
    then show ?thesis
      by (intro exI [of _ "[]"] exI [of _ "x # s"]) simp
  qed
qed

lemma lazy_k_sound:
  "lazy_k p k s = Some res \<Longrightarrow> \<exists>xs s'. s = xs @ s' \<and> list_all p xs \<and> k s' = Some res"
proof (induction s)
  case Nil
  then show ?case by simp
next
  case (Cons x s)
  show ?case
  proof (cases "k (x # s)")
    case (Some a)
    with Cons.prems have "k (x # s) = Some res" by simp
    then show ?thesis
      by (intro exI [of _ "[]"] exI [of _ "x # s"]) simp
  next
    case None
    with Cons.prems have px: "p x" and "lazy_k p k s = Some res"
      by (auto split: if_splits)
    with Cons.IH obtain xs s' where "s = xs @ s'" "list_all p xs" "k s' = Some res"
      by blast
    with px show ?thesis
      by (intro exI [of _ "x # xs"] exI [of _ s']) simp
  qed
qed

text \<open>Every match that the matcher finds is a match in the sense of \<open>rx_sem\<close>.\<close>

lemma rx_k_sound:
  "rx_k r k s c = Some res \<Longrightarrow> \<exists>s' c'. rx_sem r s c s' c' \<and> k s' c' = Some res"
proof (induction r arbitrary: k s c)
  case Eps
  then show ?case by simp
next
  case (Lit l)
  then show ?case by (auto simp: strip_prefix_Some split: option.splits)
next
  case (LitI l)
  then obtain s' where sp: "strip_prefix_ci l s = Some s'" and k: "k s' c = Some res"
    by (auto split: option.splits)
  from strip_prefix_ci_Some [OF sp] k show ?case by auto
next
  case (Cls p)
  then show ?case by (auto split: list.splits if_splits)
next
  case (Star p)
  then have "star_k p (\<lambda>s'. k s' c) s = Some res" by simp
  from star_k_sound [OF this] show ?case by auto
next
  case (Plus p)
  then obtain x xs where s: "s = x # xs" and px: "p x"
      and st: "star_k p (\<lambda>s'. k s' c) xs = Some res"
    by (auto split: list.splits if_splits)
  from star_k_sound [OF st] obtain ys s' where "xs = ys @ s'" "list_all p ys" "k s' c = Some res"
    by blast
  with s px show ?case
    by (intro exI [of _ s'] exI [of _ c]) (auto intro!: exI [of _ "x # ys"])
next
  case (StarLazy p)
  then have "lazy_k p (\<lambda>s'. k s' c) s = Some res" by simp
  from lazy_k_sound [OF this] show ?case by auto
next
  case (Opt r)
  show ?case
  proof (cases "rx_k r k s c")
    case None
    with Opt.prems show ?thesis by auto
  next
    case (Some a)
    with Opt.prems have "rx_k r k s c = Some res" by simp
    from Opt.IH [OF this] show ?thesis by auto
  qed
next
  case (Alt r1 r2)
  show ?case
  proof (cases "rx_k r1 k s c")
    case None
    with Alt.prems have "rx_k r2 k s c = Some res" by simp
    from Alt.IH(2) [OF this] show ?thesis by auto
  next
    case (Some a)
    with Alt.prems have "rx_k r1 k s c = Some res" by simp
    from Alt.IH(1) [OF this] show ?thesis by auto
  qed
next
  case (Seq r1 r2)
  then have "rx_k r1 (rx_k r2 k) s c = Some res" by simp
  from Seq.IH(1) [OF this] obtain s1 c1 where a: "rx_sem r1 s c s1 c1"
      and "rx_k r2 k s1 c1 = Some res"
    by blast
  from Seq.IH(2) [OF this(2)] a show ?case by auto
next
  case (Grp i r)
  then have "rx_k r (\<lambda>s' c'. k s' (c'(i \<mapsto> take (length s - length s') s))) s c = Some res"
    by simp
  from Grp.IH [OF this] obtain s' c0 where "rx_sem r s c s' c0"
      "k s' (c0(i \<mapsto> take (length s - length s') s)) = Some res"
    by blast
  then show ?case
    unfolding rx_sem.simps by blast
qed

lemma rx_sem_suffix: "rx_sem r s c s' c' \<Longrightarrow> suffix s' s"
proof (induction r arbitrary: s c s' c')
  case (Seq r1 r2)
  then obtain s1 c1 where "rx_sem r1 s c s1 c1" "rx_sem r2 s1 c1 s' c'" by auto
  with Seq.IH have "suffix s1 s" "suffix s' s1" by blast+
  then show ?case by (rule suffix_order.trans [rotated])
qed (auto simp: suffix_def)

lemma re_match_sound: "re_match r s = Some (s', c') \<Longrightarrow> rx_sem r s Map.empty s' c'"
  unfolding re_match_def by (drule rx_k_sound) auto

lemma re_search_sound:
  "re_search r s = Some (s', c') \<Longrightarrow> \<exists>t. suffix t s \<and> rx_sem r t Map.empty s' c'"
proof (induction s)
  case Nil
  then have "rx_sem r [] Map.empty s' c'" by (auto dest: re_match_sound)
  then show ?case by auto
next
  case (Cons x xs)
  show ?case
  proof (cases "re_match r (x # xs)")
    case None
    with Cons.prems have "re_search r xs = Some (s', c')" by simp
    from Cons.IH [OF this] obtain t where "suffix t xs" "rx_sem r t Map.empty s' c'"
      by blast
    then have "suffix t (x # xs) \<and> rx_sem r t Map.empty s' c'"
      by (simp add: suffix_Cons)
    then show ?thesis by (rule exI)
  next
    case (Some m)
    with Cons.prems have "re_match r (x # xs) = Some (s', c')" by simp
    from re_match_sound [OF this]
    have "suffix (x # xs) (x # xs) \<and> rx_sem r (x # xs) Map.empty s' c'" by simp
    then show ?thesis by (rule exI)
  qed
qed

lemma re_finditer_sound:
  "c' \<in> set (re_finditer r s) \<Longrightarrow> \<exists>t s'. suffix t s \<and> rx_sem r t Map.empty s' c'"
proof (induction r s rule: re_finditer.induct)
  case (1 r)
  show ?case
  proof (cases "re_match r []")
    case None
    with 1 show ?thesis by simp
  next
    case (Some m)
    obtain s1 c1 where m: "m = (s1, c1)" by (cases m)
    with 1 Some have "c' = c1" by simp
    with re_match_sound Some m have "suffix [] [] \<and> rx_sem r [] Map.empty s1 c'" by simp
    then show ?thesis by (intro exI)
  qed
next
  case (2 r x xs)
  show ?case
  proof (cases "re_match r (x # xs)")
    case None
    with "2.prems" have "c' \<in> set (re_finditer r xs)" by simp
    from "2.IH"(1) [OF None this] obtain t s' where "suffix t xs" "rx_sem r t Map.empty s' c'"
      by blast
    then have "suffix t (x # xs) \<and> rx_sem r t Map.empty s' c'"
      by (simp add: suffix_Cons)
    then show ?thesis by (intro exI)
  next
    case (Some m)
    obtain s1 c1 where m: "m = (s1, c1)" by (cases m)
    from re_match_sound Some m have sem: "rx_sem r (x # xs) Map.empty s1 c1" by simp
    show ?thesis
    proof (cases "c' = c1")
      case True
      with sem have "suffix (x # xs) (x # xs) \<and> rx_sem r (x # xs) Map.empty s1 c'" by simp
      then show ?thesis by (intro exI)
    next
      case False
      show ?thesis
      proof (cases "length s1 < Suc (length xs)")
        case True
        with "2.prems" Some m False have in1: "c' \<in> set (re_finditer r s1)" by simp
        from "2.IH"(2) [OF Some m [symmetric] True in1]
        obtain t s' where t: "suffix t s1" "rx_sem r t Map.empty s' c'"
          by blast
        from rx_sem_suffix [OF sem] t(1) have "suffix t (x # xs)"
          by (rule suffix_order.trans [rotated])
        with t(2) have "suffix t (x # xs) \<and> rx_sem r t Map.empty s' c'" by simp
        then show ?thesis by (intro exI)
      next
        case False
        with "2.prems" Some m \<open>c' \<noteq> c1\<close> have in2: "c' \<in> set (re_finditer r xs)" by simp
        from "2.IH"(3) [OF Some m [symmetric] False in2]
        obtain t s' where "suffix t xs" "rx_sem r t Map.empty s' c'"
          by blast
        then have "suffix t (x # xs) \<and> rx_sem r t Map.empty s' c'"
          by (simp add: suffix_Cons)
        then show ?thesis by (intro exI)
      qed
    qed
  qed
qed

section \<open>The keys of the datum dictionaries\<close>

lemma keys_update: "set (dict_keys (AList.update k v d)) = insert k (set (dict_keys d))"
  using dom_update [of k v d] by (simp add: dict_keys_def)

lemma is_upper_word: "is_upper x \<Longrightarrow> is_word x"
  by (simp add: is_word_def)

text \<open>Group 3 of a DATUM line is one capital letter.\<close>

lemma datum_line_pattern_letter:
  assumes "rx_sem datum_line_pattern s Map.empty s' c"
  shows "\<exists>x. group c 3 = [x] \<and> is_upper x"
  using assms
  by (auto simp: datum_line_pattern_def rx_seq_def group_def)

text \<open>Group 2 of a SHAPE_ASPECT match is absent or one word character.\<close>

lemma shape_aspect_pattern_letter:
  assumes "rx_sem shape_aspect_pattern s Map.empty s' c"
  shows "c 2 = None \<or> (\<exists>x. c 2 = Some [x] \<and> is_word x)"
  using assms
  by (auto simp: shape_aspect_pattern_def rx_seq_def)

lemma datum_line_keys:
  assumes "datum_line line (dr, d2f) = Inr (dr', d2f')"
  shows "set (dict_keys dr') \<subseteq> set (dict_keys dr) \<union> {[x] |x. is_upper x}"
    and "set (dict_keys d2f') \<subseteq> set (dict_keys d2f) \<union> {[x] |x. is_upper x}"
    and "set (dict_keys d2f) \<subseteq> set (dict_keys dr) \<Longrightarrow> set (dict_keys d2f') \<subseteq> set (dict_keys dr')"
proof -
  show "set (dict_keys dr') \<subseteq> set (dict_keys dr) \<union> {[x] |x. is_upper x}"
  proof (cases "re_match datum_line_pattern line")
    case None
    with assms show ?thesis by (simp add: datum_line_def)
  next
    case (Some m)
    obtain rest c where m: "m = (rest, c)" by (cases m)
    from re_match_sound Some m datum_line_pattern_letter
    obtain x where "group c 3 = [x]" "is_upper x" by blast
    with assms Some m show ?thesis
      by (auto simp: datum_line_def Let_def keys_update split: sum.splits)
  qed
  show "set (dict_keys d2f') \<subseteq> set (dict_keys d2f) \<union> {[x] |x. is_upper x}"
  proof (cases "re_match datum_line_pattern line")
    case None
    with assms show ?thesis by (simp add: datum_line_def)
  next
    case (Some m)
    obtain rest c where m: "m = (rest, c)" by (cases m)
    from re_match_sound Some m datum_line_pattern_letter
    obtain x where "group c 3 = [x]" "is_upper x" by blast
    with assms Some m show ?thesis
      by (auto simp: datum_line_def Let_def keys_update split: sum.splits)
  qed
  show "set (dict_keys d2f) \<subseteq> set (dict_keys dr) \<Longrightarrow> set (dict_keys d2f') \<subseteq> set (dict_keys dr')"
  proof (cases "re_match datum_line_pattern line")
    case None
    assume "set (dict_keys d2f) \<subseteq> set (dict_keys dr)"
    with None assms show ?thesis by (simp add: datum_line_def)
  next
    case (Some m)
    assume sub: "set (dict_keys d2f) \<subseteq> set (dict_keys dr)"
    obtain rest c where m: "m = (rest, c)" by (cases m)
    from assms Some m obtain location where
      "dr' = AList.update (group c 3) location dr"
      "d2f' = AList.update (group c 3) (group c 2) d2f"
      by (auto simp: datum_line_def Let_def split: sum.splits)
    with sub show ?thesis by (auto simp: keys_update)
  qed
qed

lemma datum_scan_keys:
  assumes "datum_scan lines (dr, d2f) = Inr (dr', d2f')"
    and "set (dict_keys dr) \<subseteq> {[x] |x. is_upper x}"
    and "set (dict_keys d2f) \<subseteq> {[x] |x. is_upper x}"
    and "set (dict_keys d2f) \<subseteq> set (dict_keys dr)"
  shows "set (dict_keys dr') \<subseteq> {[x] |x. is_upper x} \<and>
         set (dict_keys d2f') \<subseteq> {[x] |x. is_upper x} \<and>
         set (dict_keys d2f') \<subseteq> set (dict_keys dr')"
  using assms
proof (induction lines arbitrary: dr d2f)
  case Nil
  then show ?case by simp
next
  case (Cons line lines)
  from Cons.prems(1) obtain dr1 d2f1 where step: "datum_line line (dr, d2f) = Inr (dr1, d2f1)"
      and rest: "datum_scan lines (dr1, d2f1) = Inr (dr', d2f')"
    by (auto split: sum.splits)
  from datum_line_keys [OF step] Cons.prems(2-4)
  have "set (dict_keys dr1) \<subseteq> {[x] |x. is_upper x}"
    "set (dict_keys d2f1) \<subseteq> {[x] |x. is_upper x}"
    "set (dict_keys d2f1) \<subseteq> set (dict_keys dr1)"
    by blast+
  from Cons.IH [OF rest this] show ?case .
qed

lemma shape_aspect_match_keys:
  assumes "c 2 = None \<or> (\<exists>x. c 2 = Some [x] \<and> is_word x)"
  shows "set (dict_keys (shape_aspect_match c dr)) \<subseteq> set (dict_keys dr) \<union> {[x] |x. is_word x}"
    and "set (dict_keys dr) \<subseteq> set (dict_keys (shape_aspect_match c dr))"
  using assms by (auto simp: shape_aspect_match_def Let_def keys_update split: option.splits)

lemma shape_aspect_fold_keys:
  assumes "\<forall>c \<in> set cs. c 2 = None \<or> (\<exists>x. c 2 = Some [x] \<and> is_word x)"
  shows "set (dict_keys (fold shape_aspect_match cs dr)) \<subseteq> set (dict_keys dr) \<union> {[x] |x. is_word x} \<and>
         set (dict_keys dr) \<subseteq> set (dict_keys (fold shape_aspect_match cs dr))"
  using assms
proof (induction cs arbitrary: dr)
  case Nil
  then show ?case by simp
next
  case (Cons c cs)
  then have c: "c 2 = None \<or> (\<exists>x. c 2 = Some [x] \<and> is_word x)"
    and cs: "\<forall>c \<in> set cs. c 2 = None \<or> (\<exists>x. c 2 = Some [x] \<and> is_word x)"
    by simp_all
  from Cons.IH [OF cs, of "shape_aspect_match c dr"] shape_aspect_match_keys [of c dr, OF c]
  show ?case by auto
qed

lemma shape_aspect_scan_keys:
  "set (dict_keys (shape_aspect_scan inp dr)) \<subseteq> set (dict_keys dr) \<union> {[x] |x. is_word x} \<and>
   set (dict_keys dr) \<subseteq> set (dict_keys (shape_aspect_scan inp dr))"
  unfolding shape_aspect_scan_def
proof (rule shape_aspect_fold_keys, rule ballI)
  fix c assume "c \<in> set (re_finditer shape_aspect_pattern inp)"
  from re_finditer_sound [OF this] shape_aspect_pattern_letter
  show "c 2 = None \<or> (\<exists>x. c 2 = Some [x] \<and> is_word x)" by blast
qed

text \<open>
  The keys of the two dictionaries after both scans: the letters of
  \<open>datum_letter_to_feature\<close> are capital letters and keys of \<open>datum_results\<close>, whose
  keys are single word characters.
\<close>

lemma datum_maps_keys:
  assumes "datum_maps inp = Inr (dr, d2f)"
  shows "set (dict_keys dr) \<subseteq> {[x] |x. is_word x}"
    and "set (dict_keys d2f) \<subseteq> {[x] |x. is_upper x}"
    and "set (dict_keys d2f) \<subseteq> set (dict_keys dr)"
proof -
  from assms obtain dr0 where scan: "datum_scan (splitlines inp) ([], []) = Inr (dr0, d2f)"
      and dr: "dr = shape_aspect_scan inp dr0"
    by (auto simp: datum_maps_def split: sum.splits)
  have "set (dict_keys dr0) \<subseteq> {[x] |x. is_upper x} \<and>
        set (dict_keys d2f) \<subseteq> {[x] |x. is_upper x} \<and>
        set (dict_keys d2f) \<subseteq> set (dict_keys dr0)"
    by (rule datum_scan_keys [OF scan]) (simp_all add: dict_keys_def)
  then have k0: "set (dict_keys dr0) \<subseteq> {[x] |x. is_upper x}"
    and k1: "set (dict_keys d2f) \<subseteq> {[x] |x. is_upper x}"
    and k2: "set (dict_keys d2f) \<subseteq> set (dict_keys dr0)"
    by simp_all
  from k1 show "set (dict_keys d2f) \<subseteq> {[x] |x. is_upper x}" .
  from shape_aspect_scan_keys [of inp dr0] dr k0
  show "set (dict_keys dr) \<subseteq> {[x] |x. is_word x}"
    by (auto dest: is_upper_word)
  from shape_aspect_scan_keys [of inp dr0] dr k2
  show "set (dict_keys d2f) \<subseteq> set (dict_keys dr)" by auto
qed

section \<open>Matching a line of a known shape\<close>

text \<open>
  A greedy repetition over a run of characters of the class, up to a character outside
  it, hands the rest behind the run to the continuation when that succeeds there.
\<close>

lemma star_k_step:
  "list_all p xs \<Longrightarrow> star_k p k s \<noteq> None \<Longrightarrow> star_k p k (xs @ s) = star_k p k s"
  by (induction xs) (auto split: option.splits)

lemma star_k_stop: "\<not> p y \<Longrightarrow> star_k p k (y # s) = k (y # s)"
  by simp

lemma star_k_run:
  assumes "list_all p xs" "\<not> p y" "k (y # s) \<noteq> None"
  shows "star_k p k (xs @ y # s) = k (y # s)"
  using assms star_k_step [of p xs k "y # s"] by simp

lemma rx_k_Star_run:
  assumes "list_all p xs" "\<not> p y" "k (y # s) c \<noteq> None"
  shows "rx_k (Star p) k (xs @ y # s) c = k (y # s) c"
  using star_k_run [of p xs y "\<lambda>s'. k s' c" s] assms by simp

lemma rx_k_Plus_run:
  assumes "xs \<noteq> []" "list_all p xs" "\<not> p y" "k (y # s) c \<noteq> None"
  shows "rx_k (Plus p) k (xs @ y # s) c = k (y # s) c"
proof -
  from assms(1) obtain x xs' where xs: "xs = x # xs'" by (cases xs) auto
  with assms(2) have "p x" "list_all p xs'" by simp_all
  with star_k_run [of p xs' y "\<lambda>s'. k s' c" s] assms(3,4) xs show ?thesis by simp
qed

lemma is_digit_simps:
  "\<not> is_digit (CHR ''='')" "\<not> is_digit (CHR '','')" "\<not> is_digit (CHR ''('')"
  by (simp_all add: is_digit_def digit_chars_def)

lemma is_upper_not_apostrophe: "is_upper x \<Longrightarrow> not_apostrophe x"
  by (auto simp: is_upper_def not_apostrophe_def upper_letters_def)

text \<open>The DATUM pattern on a DATUM line: the groups are the id, the name and the letter.\<close>

lemma datum_line_pattern_match:
  assumes "id_digits \<noteq> []" "list_all is_digit id_digits"
    and "ref_digits \<noteq> []" "list_all is_digit ref_digits"
    and "list_all not_apostrophe name" "is_upper l"
  shows "re_match datum_line_pattern
           (''#'' @ id_digits @ ''=DATUM('' @ apostrophe @ name @ apostrophe @ '',$,#''
              @ ref_digits @ '',.F.,'' @ apostrophe @ [l] @ apostrophe @ '');'')
         = Some ([], [1 \<mapsto> id_digits, 2 \<mapsto> name, 3 \<mapsto> [l]])"
  using assms
  by (simp add: re_match_def datum_line_pattern_def rx_seq_def apostrophe_def
        rx_k_Plus_run rx_k_Star_run is_digit_simps not_apostrophe_def
      del: rx_k.simps(5) rx_k.simps(6))

text \<open>The search for the feature token behind the first "@" of a name.\<close>

lemma feature_token_skip:
  "CHR ''@'' \<notin> set X \<Longrightarrow>
     re_search feature_token_pattern (X @ s) = re_search feature_token_pattern s"
  by (induction X) (auto simp: re_match_def feature_token_pattern_def rx_seq_def)

lemma feature_token_search:
  assumes "CHR ''@'' \<notin> set X" "Y \<noteq> []" "CHR ''('' \<notin> set Y"
  shows "re_search feature_token_pattern (X @ ''@'' @ Y @ ''('' @ rest)
         = Some (''('' @ rest, [1 \<mapsto> Y])"
proof -
  from assms(3) have Y: "list_all (\<lambda>c. c \<noteq> CHR ''('') Y"
    by (auto simp: list_all_iff)
  have "re_match feature_token_pattern (''@'' @ Y @ ''('' @ rest) = Some (''('' @ rest, [1 \<mapsto> Y])"
    using assms(2) Y
    by (simp add: re_match_def feature_token_pattern_def rx_seq_def rx_k_Plus_run
          del: rx_k.simps(5) rx_k.simps(6))
  then have "re_search feature_token_pattern (''@'' @ Y @ ''('' @ rest) = Some (''('' @ rest, [1 \<mapsto> Y])"
    by simp
  with feature_token_skip [OF assms(1)] show ?thesis by simp
qed

text \<open>One step of the datum loop on a DATUM line with the name \<open>X@Y(L)\<close>.\<close>

lemma datum_line_entity:
  assumes "id_digits \<noteq> []" "list_all is_digit id_digits"
    and "ref_digits \<noteq> []" "list_all is_digit ref_digits"
    and "CHR 0x27 \<notin> set X" "CHR ''@'' \<notin> set X"
    and "Y \<noteq> []" "CHR 0x27 \<notin> set Y" "CHR ''('' \<notin> set Y"
    and "is_upper l"
  shows "datum_line (datum_entity_line id_digits X Y l ref_digits) (dr, d2f) =
           (case feature_location (lower Y) [l] of
              Inl e \<Rightarrow> Inl e
            | Inr location \<Rightarrow>
                Inr (AList.update [l] location dr,
                     AList.update [l] (X @ ''@'' @ Y @ ''('' @ [l] @ '')'') d2f))"
proof -
  let ?name = "X @ ''@'' @ Y @ ''('' @ [l] @ '')''"
  from assms(5,8,10) have name: "list_all not_apostrophe ?name"
    using is_upper_not_apostrophe [of l]
    by (auto simp: list_all_iff not_apostrophe_def)
  have line: "datum_entity_line id_digits X Y l ref_digits =
      ''#'' @ id_digits @ ''=DATUM('' @ apostrophe @ ?name @ apostrophe @ '',$,#''
        @ ref_digits @ '',.F.,'' @ apostrophe @ [l] @ apostrophe @ '');''"
    by (simp add: datum_entity_line_def)
  have m: "re_match datum_line_pattern (datum_entity_line id_digits X Y l ref_digits)
      = Some ([], [1 \<mapsto> id_digits, 2 \<mapsto> ?name, 3 \<mapsto> [l]])"
    unfolding line by (rule datum_line_pattern_match [OF assms(1-4) name assms(10)])
  have tok: "re_search feature_token_pattern ?name = Some (''('' @ [l] @ '')'', [1 \<mapsto> Y])"
    using feature_token_search [OF assms(6,7,9), of "[l] @ '')''"] by simp
  have loc: "datum_location ?name [l] = feature_location (lower Y) [l]"
    unfolding datum_location_def tok by (simp add: group_def)
  show ?thesis
    unfolding datum_line_def m
    by (simp add: group_def Let_def loc [simplified] split: sum.splits)
qed

section \<open>The datum letters of the rows\<close>

lemma sublist_trans: "sublist xs ys \<Longrightarrow> sublist ys zs \<Longrightarrow> sublist xs zs"
proof -
  assume "sublist xs ys" "sublist ys zs"
  then obtain p1 s1 p2 s2 where "ys = p1 @ xs @ s1" "zs = p2 @ ys @ s2"
    by (auto simp: sublist_def)
  then have "zs = (p2 @ p1) @ xs @ (s1 @ s2)" by simp
  then show ?thesis unfolding sublist_def by blast
qed

lemma lower_char_not_upper: "\<not> is_upper (lower_char c)"
proof (cases "map_of (zip upper_letters lower_letters) c")
  case None
  have len: "length upper_letters = length lower_letters"
    by (simp add: upper_letters_def lower_letters_def)
  from None have "c \<notin> fst ` set (zip upper_letters lower_letters)"
    by (simp add: map_of_eq_None_iff)
  also have "fst ` set (zip upper_letters lower_letters) = set (map fst (zip upper_letters lower_letters))"
    by simp
  also have "\<dots> = set upper_letters"
    by (simp only: map_fst_zip [OF len])
  finally have "c \<notin> set upper_letters" .
  with None show ?thesis
    by (simp add: lower_char_def is_upper_def char_in_set)
next
  case (Some d)
  then have "d \<in> set lower_letters"
    by (auto dest!: map_of_SomeD set_zip_rightD)
  moreover have "set lower_letters \<inter> set upper_letters = {}"
    by (simp add: lower_letters_def upper_letters_def)
  ultimately show ?thesis
    using Some by (auto simp: lower_char_def is_upper_def char_in_set)
qed

lemma lower_not_upper: "c \<in> set (lower s) \<Longrightarrow> \<not> is_upper c"
  by (auto simp: lower_def lower_char_not_upper)

text \<open>A group holds a piece of the input.\<close>

lemma rx_sem_group_sublist:
  "rx_sem r s c s' c' \<Longrightarrow> c' i = Some g \<Longrightarrow> c i = Some g \<or> sublist g s"
proof (induction r arbitrary: s c s' c')
  case (Seq r1 r2)
  from Seq.prems(1) obtain s1 c1 where a: "rx_sem r1 s c s1 c1" and b: "rx_sem r2 s1 c1 s' c'"
    by auto
  from Seq.IH(2) [OF b Seq.prems(2)] have "c1 i = Some g \<or> sublist g s1" .
  then show ?case
  proof
    assume "c1 i = Some g"
    from Seq.IH(1) [OF a this] show ?thesis .
  next
    assume "sublist g s1"
    moreover from rx_sem_suffix [OF a] have "sublist s1 s" by (rule suffix_imp_sublist)
    ultimately have "sublist g s" by (rule sublist_trans)
    then show ?thesis ..
  qed
next
  case (Grp j r)
  from Grp.prems(1) obtain c0 where a: "rx_sem r s c s' c0"
      and c': "c' = c0(j \<mapsto> take (length s - length s') s)"
    by auto
  show ?case
  proof (cases "i = j")
    case True
    with c' Grp.prems(2) have "g = take (length s - length s') s" by simp
    then show ?thesis by simp
  next
    case False
    with c' Grp.prems(2) have "c0 i = Some g" by simp
    from Grp.IH [OF a this] show ?thesis .
  qed
next
  case (Alt r1 r2)
  from Alt.prems(1) have "rx_sem r1 s c s' c' \<or> rx_sem r2 s c s' c'" by simp
  then show ?case using Alt.IH Alt.prems(2) by blast
next
  case (Opt r)
  from Opt.prems(1) have "rx_sem r s c s' c' \<or> c' = c" by auto
  then show ?case using Opt.IH Opt.prems(2) by blast
qed auto

lemma finditer_group_sublist:
  assumes "c \<in> set (re_finditer r inp)"
  shows "sublist (group c i) inp"
proof (cases "c i")
  case None
  then show ?thesis by (simp add: group_def)
next
  case (Some g)
  from re_finditer_sound [OF assms] obtain t s' where t: "suffix t inp"
      and sem: "rx_sem r t Map.empty s' c"
    by blast
  from rx_sem_group_sublist [OF sem Some] have "sublist g t" by simp
  moreover from t have "sublist t inp" by (rule suffix_imp_sublist)
  ultimately have "sublist g inp" by (rule sublist_trans)
  with Some show ?thesis by (simp add: group_def)
qed

text \<open>The lines of a text are pieces of it.\<close>

lemma splitlines_sublist: "l \<in> set (splitlines inp) \<Longrightarrow> sublist l inp"
proof (induction inp rule: splitlines.induct)
  case (1 s)
  let ?P = "\<lambda>c. \<not> is_linebreak c"
  show ?case
  proof (cases "s = []")
    case True
    with "1.prems" show ?thesis by (simp add: splitlines.simps [of "[]"])
  next
    case False
    note ne = this
    show ?thesis
    proof (cases "l = takeWhile ?P s")
      case True
      then show ?thesis by simp
    next
      case False
      note other = this
      show ?thesis
      proof (cases "dropWhile ?P s")
        case Nil
        with "1.prems" ne other show ?thesis
          by (simp add: splitlines.simps [of s] Let_def)
      next
        case (Cons x rest')
        note r1 = this
        show ?thesis
        proof (cases rest')
          case Nil
          with "1.prems" ne other r1 show ?thesis
            by (simp add: splitlines.simps [of s] Let_def)
        next
          case (Cons y rest'')
          note r2 = this
          have d: "sublist (dropWhile ?P s) s" by simp
          show ?thesis
          proof (cases "x = CHR 0x0D \<and> y = CHR 0x0A")
            case True
            with "1.prems" ne other r1 r2 have "l \<in> set (splitlines rest'')"
              by (simp add: splitlines.simps [of s] Let_def)
            from "1.IH"(1) [OF ne refl refl r1 r2 True this] have "sublist l rest''" .
            moreover have "sublist rest'' (dropWhile ?P s)"
              unfolding r1 r2 by (rule suffix_imp_sublist) (simp add: suffix_def)
            ultimately have "sublist l (dropWhile ?P s)" by (rule sublist_trans)
            from this d show ?thesis by (rule sublist_trans)
          next
            case False
            with "1.prems" ne other r1 r2 have "l \<in> set (splitlines rest')"
              by (simp add: splitlines.simps [of s] Let_def)
            from "1.IH"(2) [OF ne refl refl r1 r2 False this] have "sublist l rest'" .
            moreover have "sublist rest' (dropWhile ?P s)"
              unfolding r1 by (rule suffix_imp_sublist) (simp add: suffix_def)
            ultimately have "sublist l (dropWhile ?P s)" by (rule sublist_trans)
            from this d show ?thesis by (rule sublist_trans)
          qed
        qed
      qed
    qed
  qed
qed

section \<open>The datum of a dimensional row\<close>

lemma insert_sorted_set: "set (insert_sorted k xs) = insert k (set xs)"
  by (induction xs) auto

lemma py_sorted_set: "set (py_sorted ks) = set ks"
  by (induction ks) (simp_all add: py_sorted_def insert_sorted_set)

lemma find_in_set: "List.find P xs = Some x \<Longrightarrow> x \<in> set xs"
  by (auto simp: find_Some_iff)

lemma first_cylindrical_key: "first_cylindrical dr = Some d \<Longrightarrow> d \<in> set (dict_keys dr)"
  by (force simp: first_cylindrical_def dict_keys_def dest!: find_in_set)

lemma first_planar_key: "first_planar dr = Some d \<Longrightarrow> d \<in> set (dict_keys dr)"
  by (force simp: first_planar_def dict_keys_def dest!: find_in_set)

text \<open>
  The first method never returns: its pattern asks for a capital letter, and the name
  it is given is in lower case.
\<close>

lemma datum_method1_lower: "datum_method1 (lower s) = None"
proof (cases "re_search datum_ref_pattern (lower s)")
  case None
  then show ?thesis by (simp add: datum_method1_def)
next
  case (Some m)
  obtain rest c where m: "m = (rest, c)" by (cases m)
  from re_search_sound Some m obtain t where t: "suffix t (lower s)"
      and sem: "rx_sem datum_ref_pattern t Map.empty rest c"
    by blast
  from sem obtain x where "is_upper x" "x \<in> set t"
    by (auto simp: datum_ref_pattern_def rx_seq_def)
  moreover from t have "set t \<subseteq> set (lower s)"
    by (auto simp: suffix_def)
  ultimately show ?thesis using lower_not_upper by blast
qed

lemma datum_method2_key: "datum_method2 fname dr = Some d \<Longrightarrow> d \<in> set (dict_keys dr)"
  by (auto simp: datum_method2_def Let_def split: option.splits if_splits)

lemma nth_plane_datum_key: "nth_plane_datum plane_num ks = Inr (Some d) \<Longrightarrow> d \<in> set ks"
  by (auto simp: nth_plane_datum_def Let_def split: if_splits)

lemma datum_method3_key:
  assumes "datum_method3 fname dr = Inr (Some d)"
  shows "d \<in> set (dict_keys dr)"
proof (cases "py_in ''boss'' fname \<or> py_in ''cylinder'' fname")
  case True
  with assms show ?thesis
    by (auto simp: datum_method3_def dict_keys_def split: option.splits list.splits
          dest: first_cylindrical_key [unfolded dict_keys_def])
next
  case False
  note nb = this
  show ?thesis
  proof (cases "py_in ''plane'' fname")
    case False
    with nb assms show ?thesis by (simp add: datum_method3_def)
  next
    case True
    with nb assms have
      "(case (case re_search plane_number_pattern fname of
                None \<Rightarrow> Inr None
              | Some (rest, c) \<Rightarrow>
                  (case py_int (group c 1) of
                     Inl e \<Rightarrow> Inl e
                   | Inr plane_num \<Rightarrow>
                       nth_plane_datum plane_num (py_sorted (dict_keys dr)))) of
          Inl e \<Rightarrow> Inl e
        | Inr (Some datum_letter) \<Rightarrow> Inr (Some datum_letter)
        | Inr None \<Rightarrow> Inr (first_planar dr)) = Inr (Some d)"
      by (simp add: datum_method3_def)
    then show ?thesis
      by (auto split: option.splits sum.splits prod.splits
            dest: first_planar_key nth_plane_datum_key simp: py_sorted_set)
  qed
qed

lemma datum_method4_key: "datum_method4 fname d2f = Some d \<Longrightarrow> d \<in> set (dict_keys d2f)"
  by (force simp: datum_method4_def dict_keys_def dest!: find_in_set)

lemma datum_method5_key: "datum_method5 fname dr = [] \<or> datum_method5 fname dr \<in> set (dict_keys dr)"
proof (cases dr)
  case Nil
  then show ?thesis by (simp add: datum_method5_def)
next
  case (Cons p ps)
  obtain first_letter location where p: "p = (first_letter, location)" by (cases p)
  have first: "first_letter \<in> set (dict_keys dr)"
    using Cons p by (simp add: dict_keys_def)
  show ?thesis
    using Cons p first first_cylindrical_key [of dr] first_planar_key [of dr]
    by (auto simp: datum_method5_def split: option.splits)
qed

lemma find_datum_key:
  assumes "find_datum_for_dimensional_tolerance feature_name dr d2f = Inr d"
    and "set (dict_keys d2f) \<subseteq> set (dict_keys dr)"
  shows "d = [] \<or> d \<in> set (dict_keys dr)"
proof (cases "feature_name = []")
  case True
  with assms(1) show ?thesis by (simp add: find_datum_for_dimensional_tolerance_def)
next
  case False
  let ?f = "lower feature_name"
  from False assms(1) have r:
    "(case datum_method2 ?f dr of
        Some datum_letter \<Rightarrow> Inr datum_letter
      | None \<Rightarrow>
       (case datum_method3 ?f dr of
          Inl e \<Rightarrow> Inl e
        | Inr (Some datum_letter) \<Rightarrow> Inr datum_letter
        | Inr None \<Rightarrow>
       (case datum_method4 ?f d2f of
          Some datum_letter \<Rightarrow> Inr datum_letter
        | None \<Rightarrow> Inr (datum_method5 ?f dr)))) = Inr d"
    by (simp add: find_datum_for_dimensional_tolerance_def Let_def datum_method1_lower)
  show ?thesis
  proof (cases "datum_method2 ?f dr")
    case (Some a)
    with r datum_method2_key show ?thesis by auto
  next
    case None
    note m2 = this
    show ?thesis
    proof (cases "datum_method3 ?f dr")
      case (Inl e)
      with r m2 show ?thesis by simp
    next
      case (Inr o3)
      show ?thesis
      proof (cases o3)
        case (Some a)
        with r m2 Inr datum_method3_key show ?thesis by auto
      next
        case None
        note m3 = this
        show ?thesis
        proof (cases "datum_method4 ?f d2f")
          case (Some a)
          with r m2 Inr m3 datum_method4_key [of ?f d2f a] assms(2) show ?thesis by auto
        next
          case None
          with r m2 Inr m3 datum_method5_key [of ?f dr] show ?thesis by auto
        qed
      qed
    qed
  qed
qed

lemma location_datum_key:
  assumes "location_datum feature_name1 feature_name2 dr d2f = Inr d"
    and "set (dict_keys d2f) \<subseteq> set (dict_keys dr)"
  shows "d = [] \<or> d \<in> set (dict_keys dr)"
  using assms(1) find_datum_key [OF _ assms(2)]
  by (auto simp: location_datum_def split: sum.splits if_splits)

lemma map_rows_elem:
  "map_rows f xs = Inr ys \<Longrightarrow> y \<in> set ys \<Longrightarrow> \<exists>x \<in> set xs. f x = Inr y"
  by (induction xs arbitrary: ys) (auto split: sum.splits)

lemma dimensional_size_row_key:
  assumes "dimensional_size_row lines line_dict dr d2f nv d2t tv c = Inr r"
    and "set (dict_keys d2f) \<subseteq> set (dict_keys dr)"
  shows "row_datum r = [] \<or> row_datum r \<in> set (dict_keys dr)"
  using assms(1) find_datum_key [OF _ assms(2)]
  by (auto simp: dimensional_size_row_def Let_def row_datum_def split: sum.splits prod.splits)

lemma dimensional_location_row_key:
  assumes "dimensional_location_row lines line_dict dr d2f nv d2t tv c = Inr r"
    and "set (dict_keys d2f) \<subseteq> set (dict_keys dr)"
  shows "row_datum r = [] \<or> row_datum r \<in> set (dict_keys dr)"
  using assms(1) location_datum_key [OF _ assms(2)]
  by (auto simp: dimensional_location_row_def Let_def row_datum_def split: sum.splits prod.splits)

lemma dimensional_rows_key:
  assumes "r \<in> set (extract_dimensional_tolerances inp line_dict dr d2f)"
    and "set (dict_keys d2f) \<subseteq> set (dict_keys dr)"
  shows "row_datum r = [] \<or> row_datum r \<in> set (dict_keys dr)"
proof (cases "dimensional_rows inp line_dict dr d2f")
  case (Inl e)
  with assms(1) show ?thesis by (simp add: extract_dimensional_tolerances_def)
next
  case (Inr rows)
  with assms(1) have r: "r \<in> set rows" by (simp add: extract_dimensional_tolerances_def)
  from Inr obtain size_rows location_rows where
    s: "map_rows (dimensional_size_row (splitlines inp) line_dict dr d2f (nominal_values_of (splitlines inp))
          (dimension_to_tolerance_of inp) (tolerance_values_of inp (length_measures_of inp)))
          (re_finditer dimensional_size_pattern inp) = Inr size_rows"
    and l: "map_rows (dimensional_location_row (splitlines inp) line_dict dr d2f (nominal_values_of (splitlines inp))
          (dimension_to_tolerance_of inp) (tolerance_values_of inp (length_measures_of inp)))
          (re_finditer dimensional_location_pattern inp) = Inr location_rows"
    and rows: "rows = size_rows @ location_rows"
    by (auto simp: dimensional_rows_def Let_def split: sum.splits)
  from r rows have "r \<in> set size_rows \<or> r \<in> set location_rows" by simp
  then show ?thesis
  proof
    assume "r \<in> set size_rows"
    from map_rows_elem [OF s this] dimensional_size_row_key [OF _ assms(2)] show ?thesis by blast
  next
    assume "r \<in> set location_rows"
    from map_rows_elem [OF l this] dimensional_location_row_key [OF _ assms(2)] show ?thesis by blast
  qed
qed

section \<open>The datum of a geometric row\<close>

lemma first_some_elem: "first_some f xs = Some y \<Longrightarrow> \<exists>x \<in> set xs. f x = Some y"
  by (induction xs) (auto split: option.splits)

lemma paren_letter_search:
  assumes "re_search paren_letter_pattern s = Some (rest, c)"
  shows "\<exists>x. group c 1 = [x] \<and> is_upper x \<and> sublist (''('' @ [x] @ '')'') s"
proof -
  from re_search_sound [OF assms] obtain t where t: "suffix t s"
      and sem: "rx_sem paren_letter_pattern t Map.empty rest c"
    by blast
  from sem obtain x where x: "group c 1 = [x]" "is_upper x" and "t = (''('' @ [x] @ '')'') @ rest"
    by (auto simp: paren_letter_pattern_def rx_seq_def group_def)
  then have "sublist (''('' @ [x] @ '')'') t"
    by (simp only: sublist_append_rightI)
  moreover from t have "sublist t s" by (rule suffix_imp_sublist)
  ultimately have "sublist (''('' @ [x] @ '')'') s" by (rule sublist_trans)
  with x show ?thesis by blast
qed

lemma datum_feature_search:
  assumes "re_search datum_feature_pattern s = Some (rest, c)"
  shows "\<exists>x. group c 1 = [x] \<and> is_upper x \<and> sublist (''('' @ [x] @ '')'') s"
proof -
  from re_search_sound [OF assms] obtain t where t: "suffix t s"
      and sem: "rx_sem datum_feature_pattern t Map.empty rest c"
    by blast
  from sem obtain x xs ys where x: "group c 1 = [x]" "is_upper x"
      and "t = (''DATUM_FEATURE('' @ xs @ apostrophe @ ys) @ (''('' @ [x] @ '')'') @ (apostrophe @ rest)"
    by (auto simp: datum_feature_pattern_def rx_seq_def group_def apostrophe_def)
  then have "sublist (''('' @ [x] @ '')'') t"
    by (simp only: sublist_appendI)
  moreover from t have "sublist t s" by (rule suffix_imp_sublist)
  ultimately have "sublist (''('' @ [x] @ '')'') s" by (rule sublist_trans)
  with x show ?thesis by blast
qed

lemma accounted_key: "d \<in> set (dict_keys dr) \<Longrightarrow> accounted dr inp d"
  by (simp add: accounted_def)

lemma accounted_empty: "accounted dr inp []"
  by (simp add: accounted_def)

lemma accounted_parenthesized:
  "is_upper x \<Longrightarrow> sublist (''('' @ [x] @ '')'') s \<Longrightarrow> sublist s inp \<Longrightarrow> accounted dr inp [x]"
  using sublist_trans [of "''('' @ [x] @ '')''" s inp]
  by (simp add: accounted_def py_in_sublist)

lemma tol_method1_accounted:
  assumes "sublist tol_name inp"
  shows "accounted dr inp (fst (tol_method1 tol_name dr))"
proof (cases "re_search paren_letter_pattern tol_name")
  case None
  then show ?thesis by (simp add: tol_method1_def accounted_empty)
next
  case (Some m)
  obtain rest c where m: "m = (rest, c)" by (cases m)
  from paren_letter_search Some m obtain x where "group c 1 = [x]" "is_upper x"
      "sublist (''('' @ [x] @ '')'') tol_name"
    by blast
  with Some m accounted_parenthesized [OF _ _ assms] show ?thesis
    by (simp add: tol_method1_def)
qed

lemma tol_method2_accounted:
  assumes "accounted dr inp (fst st)"
  shows "accounted dr inp (fst (tol_method2 tol_name dr st))"
  using assms
  by (cases st) (auto simp: tol_method2_def accounted_key split: option.splits dest: find_in_set)

lemma datum_feature_letter_accounted:
  assumes "datum_feature_letter lines entity_ref = Some d"
    and "\<forall>l \<in> set lines. sublist l inp"
  shows "accounted dr inp d"
proof -
  from first_some_elem [OF assms(1) [unfolded datum_feature_letter_def]]
  obtain line rest c where line: "line \<in> set lines"
      and s: "re_search datum_feature_pattern line = Some (rest, c)" and d: "d = group c 1"
    by (auto split: if_splits option.splits)
  from datum_feature_search [OF s] obtain x where "group c 1 = [x]" "is_upper x"
      "sublist (''('' @ [x] @ '')'') line"
    by blast
  with d line assms(2) accounted_parenthesized [of x line inp dr] show ?thesis by auto
qed

lemma tol_method3_accounted:
  assumes "accounted dr inp (fst st)" and "\<forall>l \<in> set lines. sublist l inp"
  shows "accounted dr inp (fst (tol_method3 tol_id lines line_dict dr st))"
proof (cases st)
  case (Pair datum_letter location)
  show ?thesis
  proof (cases "datum_letter = []")
    case False
    with Pair assms(1) show ?thesis by (simp add: tol_method3_def)
  next
    case True
    let ?refs = "map (\<lambda>c. group c 1) (re_finditer entity_ref_pattern (dict_get line_dict tol_id []))"
    show ?thesis
    proof (cases "first_some (datum_feature_letter lines) ?refs")
      case None
      with Pair True assms(1) show ?thesis by (simp add: tol_method3_def Let_def)
    next
      case (Some d)
      from first_some_elem [OF Some] obtain entity_ref where
        "datum_feature_letter lines entity_ref = Some d" by blast
      from datum_feature_letter_accounted [OF this assms(2)] have "accounted dr inp d" .
      with Pair True Some show ?thesis by (simp add: tol_method3_def Let_def)
    qed
  qed
qed

lemma datum_with_feature_accounted:
  assumes "accounted dr inp d" and "set (dict_keys d2f) \<subseteq> set (dict_keys dr)"
  shows "accounted dr inp (datum_with_feature word d2f d)"
proof (cases "d = []")
  case False
  with assms(1) show ?thesis by (simp add: datum_with_feature_def)
next
  case True
  show ?thesis
  proof (cases "List.find (\<lambda>(d_letter, d_feature). py_in word (lower d_feature)) d2f")
    case None
    with True show ?thesis by (simp add: datum_with_feature_def accounted_empty)
  next
    case (Some p)
    obtain k v where p: "p = (k, v)" by (cases p)
    from find_in_set [OF Some] p have "k \<in> set (dict_keys d2f)"
      by (force simp: dict_keys_def)
    with assms(2) have "accounted dr inp k" by (auto intro: accounted_key)
    with True Some p show ?thesis by (simp add: datum_with_feature_def)
  qed
qed

lemma tol_method4_accounted:
  assumes "accounted dr inp (fst st)" and "set (dict_keys d2f) \<subseteq> set (dict_keys dr)"
  shows "accounted dr inp (fst (tol_method4 tol_name d2f st))"
  using assms datum_with_feature_accounted [OF _ assms(2), of inp "fst st"]
  by (cases st) (auto simp: tol_method4_def Let_def)

lemma tol_method5_accounted:
  assumes "accounted dr inp (fst st)"
  shows "accounted dr inp (fst (tol_method5 dr st))"
  using assms
  by (cases st) (auto simp: tol_method5_def accounted_key split: option.splits dest: find_in_set)

lemma tol_method6_accounted:
  assumes "accounted dr inp (fst st)"
  shows "accounted dr inp (fst (tol_method6 label dr n st))"
proof (cases st)
  case (Pair datum_letter location)
  have nth: "m < length (dict_keys dr) \<Longrightarrow> accounted dr inp (dict_keys dr ! m)" for m
    by (rule accounted_key) simp
  have zero: "dict_keys dr \<noteq> [] \<Longrightarrow> accounted dr inp (dict_keys dr ! 0)"
    by (rule accounted_key) (simp add: nth_mem)
  from assms Pair nth zero show ?thesis
    by (auto simp: tol_method6_def Let_def accounted_key split: option.splits dest: find_in_set)
qed

lemma resolve_datum_accounted:
  assumes "sublist tol_name inp" and "\<forall>l \<in> set lines. sublist l inp"
    and "set (dict_keys d2f) \<subseteq> set (dict_keys dr)"
  shows "accounted dr inp (fst (resolve_datum tol_id label tol_name lines line_dict dr d2f n))"
  unfolding resolve_datum_def
  by (intro tol_method6_accounted tol_method5_accounted tol_method4_accounted
        tol_method3_accounted tol_method2_accounted tol_method1_accounted assms)

lemma tol_match_accounted:
  assumes "\<forall>r \<in> set acc. accounted dr inp (tol_datum r)"
    and "sublist (group c 3) inp" and "\<forall>l \<in> set lines. sublist l inp"
    and "set (dict_keys d2f) \<subseteq> set (dict_keys dr)"
  shows "\<forall>r \<in> set (tol_match lines line_dict dr d2f c acc). accounted dr inp (tol_datum r)"
proof -
  obtain d loc where r: "resolve_datum (group c 1) (tol_label (group c 2)) (group c 3) lines
      line_dict dr d2f (length acc) = (d, loc)"
    by (cases "resolve_datum (group c 1) (tol_label (group c 2)) (group c 3) lines
      line_dict dr d2f (length acc)")
  from resolve_datum_accounted [OF assms(2,3,4), of "group c 1" "tol_label (group c 2)" line_dict
      "length acc"] r
  have "accounted dr inp d" by simp
  with assms(1) r show ?thesis
    by (simp add: tol_match_def Let_def tol_datum_def)
qed

lemma tol_fold_accounted:
  assumes "\<forall>c \<in> set cs. sublist (group c 3) inp" and "\<forall>l \<in> set lines. sublist l inp"
    and "set (dict_keys d2f) \<subseteq> set (dict_keys dr)"
    and "\<forall>r \<in> set acc. accounted dr inp (tol_datum r)"
  shows "\<forall>r \<in> set (fold (tol_match lines line_dict dr d2f) cs acc). accounted dr inp (tol_datum r)"
  using assms(1,4)
proof (induction cs arbitrary: acc)
  case Nil
  then show ?case by simp
next
  case (Cons c cs)
  from Cons.prems(1) have c: "sublist (group c 3) inp"
    and cs: "\<forall>c \<in> set cs. sublist (group c 3) inp"
    by simp_all
  from tol_match_accounted [OF Cons.prems(2) c assms(2,3)]
  have "\<forall>r \<in> set (tol_match lines line_dict dr d2f c acc). accounted dr inp (tol_datum r)" .
  from Cons.IH [OF cs this] show ?case by simp
qed

lemma tol_results_accounted:
  assumes "set (dict_keys d2f) \<subseteq> set (dict_keys dr)"
  shows "\<forall>r \<in> set (tol_results_of inp dr d2f). accounted dr inp (tol_datum r)"
  unfolding tol_results_of_def tolerance_scan_def
proof (rule tol_fold_accounted [OF _ _ assms])
  show "\<forall>c \<in> set (re_finditer tol_pattern inp). sublist (group c 3) inp"
    using finditer_group_sublist by blast
  show "\<forall>l \<in> set (splitlines inp). sublist l inp"
    using splitlines_sublist by blast
  show "\<forall>r \<in> set []. accounted dr inp (tol_datum r)"
    by simp
qed

section \<open>The rows of the tolerance loop, one for each match\<close>

lemma tol_match_appends: "\<exists>r. tol_match lines line_dict dr d2f c acc = acc @ [r]"
  by (simp add: tol_match_def Let_def split: prod.splits)

lemma table_match_appends: "\<exists>r. table_match line_dict dr c acc = acc @ [r]"
  by (simp add: table_match_def Let_def split: prod.splits)

text \<open>
  A loop whose body appends one row to the list: the row of the match at index \<open>i\<close> is
  the one that the body appends when \<open>i\<close> rows are there.
\<close>

lemma fold_appends:
  assumes "\<And>c acc. \<exists>r. f c acc = acc @ [r]"
  shows "\<exists>rs. fold f cs acc = acc @ rs \<and> length rs = length cs"
proof (induction cs arbitrary: acc)
  case Nil
  then show ?case by simp
next
  case (Cons c cs)
  from assms obtain r where r: "f c acc = acc @ [r]" by blast
  from Cons.IH [of "acc @ [r]"] obtain rs where
    "fold f cs (acc @ [r]) = (acc @ [r]) @ rs" "length rs = length cs" by blast
  with r have "fold f (c # cs) acc = acc @ (r # rs) \<and> length (r # rs) = length (c # cs)"
    by simp
  then show ?case by blast
qed

lemma fold_appends_nth:
  assumes app: "\<And>c acc. \<exists>r. f c acc = acc @ [r]" and i: "i < length cs"
  shows "\<exists>acc. length acc = i \<and> fold f cs [] ! i = last (f (cs ! i) acc)"
proof -
  from i have cs: "cs = take i cs @ cs ! i # drop (Suc i) cs"
    by (rule id_take_nth_drop)
  from fold_appends [of f "take i cs" "[]", OF app] obtain acc where
    acc: "fold f (take i cs) [] = acc" "length acc = length (take i cs)" by auto
  from app obtain r where r: "f (cs ! i) acc = acc @ [r]" by blast
  from fold_appends [of f "drop (Suc i) cs" "acc @ [r]", OF app] obtain rs where
    rs: "fold f (drop (Suc i) cs) (acc @ [r]) = (acc @ [r]) @ rs" by blast
  have "fold f cs [] = fold f (drop (Suc i) cs) (f (cs ! i) (fold f (take i cs) []))"
    by (subst cs) simp
  with acc r rs have "fold f cs [] = acc @ r # rs" by simp
  moreover from acc(2) i have len: "length acc = i" by simp
  ultimately have "fold f cs [] ! i = r" by (simp add: nth_append)
  with r len show ?thesis by auto
qed

text \<open>The last tier on a straightness tolerance that comes to it without a location.\<close>

lemma tol_method6_straightness:
  assumes "lower label = ''straightness''" and "dr \<noteq> []"
  shows "tol_method6 label dr n (d, []) =
           (if n < length (dict_keys dr) then dict_keys dr ! n else dict_keys dr ! 0,
            dict_get dr (if n < length (dict_keys dr) then dict_keys dr ! n
                         else dict_keys dr ! 0) [])"
  using assms by (simp add: tol_method6_def Let_def dict_keys_def)

lemma tol_match_straightness:
  assumes "lower (tol_label (group c 2)) = ''straightness''" and "dr \<noteq> []"
    and "tol_method5 dr (tol_method4 (group c 3) d2f
           (tol_method3 (group c 1) lines line_dict dr
              (tol_method2 (group c 3) dr (tol_method1 (group c 3) dr)))) = (d, [])"
  shows "tol_match lines line_dict dr d2f c acc =
           acc @ [(tol_label (group c 2), tol_value line_dict (group c 4),
                   if length acc < length (dict_keys dr) then dict_keys dr ! length acc
                   else dict_keys dr ! 0,
                   dict_get dr (if length acc < length (dict_keys dr)
                                then dict_keys dr ! length acc else dict_keys dr ! 0) [],
                   [], [], [])]"
  using tol_method6_straightness [OF assms(1,2), of "length acc" d] assms(3)
  by (simp add: tol_match_def resolve_datum_def Let_def)

lemma tolerance_scan_straightness:
  assumes "i < length (re_finditer tol_pattern inp)"
    and "c = re_finditer tol_pattern inp ! i"
    and "lower (tol_label (group c 2)) = ''straightness''" and "dr \<noteq> []"
    and "tol_method5 dr (tol_method4 (group c 3) d2f
           (tol_method3 (group c 1) lines line_dict dr
              (tol_method2 (group c 3) dr (tol_method1 (group c 3) dr)))) = (d, [])"
  shows "tolerance_scan inp lines line_dict dr d2f ! i =
           (tol_label (group c 2), tol_value line_dict (group c 4),
            if i < length (dict_keys dr) then dict_keys dr ! i else dict_keys dr ! 0,
            dict_get dr (if i < length (dict_keys dr) then dict_keys dr ! i
                         else dict_keys dr ! 0) [],
            [], [], [])"
proof -
  from fold_appends_nth [of "tol_match lines line_dict dr d2f" i "re_finditer tol_pattern inp",
      OF tol_match_appends assms(1)]
  obtain acc where acc: "length acc = i"
    and nth: "tolerance_scan inp lines line_dict dr d2f ! i =
                last (tol_match lines line_dict dr d2f c acc)"
    by (auto simp: tolerance_scan_def assms(2))
  from nth tol_match_straightness [OF assms(3,4,5), of acc] acc show ?thesis
    by simp
qed

text \<open>The last method of main.py on a straightness tolerance without a location.\<close>

lemma table_match_straightness:
  assumes "lower (tol_label (group c 2)) = ''straightness''"
    and "table_method3 (group c 3) (tol_method2 (group c 3) dr (tol_method1 (group c 3) dr))
           = (d, [])"
  shows "table_match line_dict dr c acc =
           acc @ [(tol_label (group c 2), tol_value line_dict (group c 4), d, ''surface'')]"
  using assms by (simp add: table_match_def table_resolve_def table_method4_def Let_def)

lemma table_scan_straightness:
  assumes "i < length (re_finditer tol_pattern inp)"
    and "c = re_finditer tol_pattern inp ! i"
    and "lower (tol_label (group c 2)) = ''straightness''"
    and "table_method3 (group c 3) (tol_method2 (group c 3) dr (tol_method1 (group c 3) dr))
           = (d, [])"
  shows "table_scan inp line_dict dr ! i =
           (tol_label (group c 2), tol_value line_dict (group c 4), d, ''surface'')"
proof -
  from fold_appends_nth [of "table_match line_dict dr" i "re_finditer tol_pattern inp",
      OF table_match_appends assms(1)]
  obtain acc where "length acc = i"
    and nth: "table_scan inp line_dict dr ! i = last (table_match line_dict dr c acc)"
    by (auto simp: table_scan_def assms(2))
  from nth table_match_straightness [OF assms(3,4), of line_dict acc] show ?thesis
    by simp
qed

text \<open>The tolerance rows are the first rows of the result, one for each match.\<close>

lemma tolerance_scan_length:
  "length (tolerance_scan inp lines line_dict dr d2f) = length (re_finditer tol_pattern inp)"
  using fold_appends [of "tol_match lines line_dict dr d2f" "re_finditer tol_pattern inp" "[]",
      OF tol_match_appends]
  by (auto simp: tolerance_scan_def)

lemma table_scan_length:
  "length (table_scan inp line_dict dr) = length (re_finditer tol_pattern inp)"
  using fold_appends [of "table_match line_dict dr" "re_finditer tol_pattern inp" "[]",
      OF table_match_appends]
  by (auto simp: table_scan_def)

lemma extract_tolerance_data_nth:
  assumes "datum_maps inp = Inr (dr, d2f)" and "i < length (re_finditer tol_pattern inp)"
  shows "extract_tolerance_data inp ! i = geometric_row (tol_results_of inp dr d2f ! i)"
  using assms
  by (simp add: extract_tolerance_data_def extract_body_def Let_def nth_append
        tol_results_of_def tolerance_scan_length)

lemma extract_tolerance_table_nth:
  assumes "datum_maps inp = Inr (dr, d2f)" and "i < length (re_finditer tol_pattern inp)"
  shows "\<exists>table_rows. extract_tolerance_table inp = Inr table_rows \<and>
           table_rows ! i =
             table_tolerance_row (table_scan inp (build_line_dict (splitlines inp)) dr ! i)"
  using assms
  by (simp add: extract_tolerance_table_def Let_def nth_append table_scan_length)

section \<open>Where the classifier raises\<close>

text \<open>
  Only \<open>int\<close> raises in the classifier, on a plane number of more than 4300 digits; a
  name of at most 4300 characters has no such number.
\<close>

lemma plane_number_tiers_short:
  assumes "length fname \<le> 4300"
  shows "\<exists>location. plane_number_tiers name fname = Inr location"
proof (cases "map (\<lambda>c. group c 1) (re_finditer plane_number_pattern fname)")
  case Nil
  then show ?thesis by (simp add: plane_number_tiers_def)
next
  case (Cons n ns)
  then have "n \<in> set (map (\<lambda>c. group c 1) (re_finditer plane_number_pattern fname))"
    by simp
  then obtain c where "c \<in> set (re_finditer plane_number_pattern fname)" "n = group c 1"
    by auto
  with finditer_group_sublist [of c plane_number_pattern fname 1] have "sublist n fname"
    by simp
  then have "length n \<le> length fname" by (rule sublist_length_le)
  with assms have "py_int n = Inr (digits_value n)"
    by (simp add: py_int_def int_max_str_digits_def)
  with Cons show ?thesis by (simp add: plane_number_tiers_def)
qed

lemma length_lower: "length (lower s) = length s"
  by (simp add: lower_def)

lemma determine_plane_position_short:
  assumes "length name \<le> 4300"
  shows "\<exists>location. determine_plane_position (Some name) d = Inr location"
  using plane_number_tiers_short [of "lower name" name] assms
  by (auto simp: determine_plane_position_def Let_def length_lower)













section \<open>The datum of a row of main.py\<close>

lemma table_method3_letter: "fst (table_method3 tol_name st) = fst st"
  by (cases st) (simp add: table_method3_def Let_def)

lemma table_method4_letter: "fst (table_method4 label st) = fst st"
  by (cases st) (simp add: table_method4_def)

lemma table_resolve_accounted:
  assumes "sublist tol_name inp"
  shows "accounted dr inp (fst (table_resolve label tol_name dr))"
  unfolding table_resolve_def table_method4_letter table_method3_letter
  by (intro tol_method2_accounted tol_method1_accounted assms)

lemma table_match_accounted:
  assumes "\<forall>r \<in> set acc. accounted dr inp (table_tol_datum r)"
    and "sublist (group c 3) inp"
  shows "\<forall>r \<in> set (table_match line_dict dr c acc). accounted dr inp (table_tol_datum r)"
proof -
  obtain d loc where r: "table_resolve (tol_label (group c 2)) (group c 3) dr = (d, loc)"
    by (cases "table_resolve (tol_label (group c 2)) (group c 3) dr")
  from table_resolve_accounted [OF assms(2), of dr "tol_label (group c 2)"] r
  have "accounted dr inp d" by simp
  with assms(1) r show ?thesis
    by (simp add: table_match_def Let_def table_tol_datum_def)
qed

lemma table_fold_accounted:
  assumes "\<forall>c \<in> set cs. sublist (group c 3) inp"
    and "\<forall>r \<in> set acc. accounted dr inp (table_tol_datum r)"
  shows "\<forall>r \<in> set (fold (table_match line_dict dr) cs acc). accounted dr inp (table_tol_datum r)"
  using assms
proof (induction cs arbitrary: acc)
  case Nil
  then show ?case by simp
next
  case (Cons c cs)
  from Cons.prems(1) have c: "sublist (group c 3) inp"
    and cs: "\<forall>c \<in> set cs. sublist (group c 3) inp"
    by simp_all
  from table_match_accounted [OF Cons.prems(2) c]
  have "\<forall>r \<in> set (table_match line_dict dr c acc). accounted dr inp (table_tol_datum r)" .
  from Cons.IH [OF cs this] show ?case by simp
qed

lemma table_scan_accounted:
  "\<forall>r \<in> set (table_scan inp line_dict dr). accounted dr inp (table_tol_datum r)"
  unfolding table_scan_def
proof (rule table_fold_accounted)
  show "\<forall>c \<in> set (re_finditer tol_pattern inp). sublist (group c 3) inp"
    using finditer_group_sublist by blast
  show "\<forall>r \<in> set []. accounted dr inp (table_tol_datum r)"
    by simp
qed

section \<open>The step of the datum loop, written out\<close>

lemma datum_line_written_out:
  assumes "id_digits \<noteq> []" "list_all is_digit id_digits"
    and "ref_digits \<noteq> []" "list_all is_digit ref_digits"
    and "CHR 0x27 \<notin> set X" "CHR ''@'' \<notin> set X"
    and "Y \<noteq> []" "CHR 0x27 \<notin> set Y" "CHR ''('' \<notin> set Y"
    and "is_upper l"
  shows "datum_line (datum_entity_line id_digits X Y l ref_digits) (dr, d2f) =
           (case (if py_in ''boss'' (lower Y) then Inr ''cylindrical side''
                  else if py_in ''plane1'' (lower Y) then Inr ''bottom face''
                  else if py_in ''plane2'' (lower Y) then Inr ''top face''
                  else if py_in ''plane'' (lower Y) then
                    determine_plane_position (Some (lower Y)) (Some [l])
                  else Inr (lower Y)) of
              Inl e \<Rightarrow> Inl e
            | Inr location \<Rightarrow>
                Inr (AList.update [l] location dr,
                     AList.update [l] (X @ ''@'' @ Y @ ''('' @ [l] @ '')'') d2f))"
  using datum_line_entity [OF assms, of dr d2f] by (simp only: feature_location_def)

lemma datum_line_stores:
  assumes "id_digits \<noteq> []" "list_all is_digit id_digits"
    and "ref_digits \<noteq> []" "list_all is_digit ref_digits"
    and "CHR 0x27 \<notin> set X" "CHR ''@'' \<notin> set X"
    and "Y \<noteq> []" "CHR 0x27 \<notin> set Y" "CHR ''('' \<notin> set Y"
    and "is_upper l"
    and "length Y \<le> 4300"
  shows "\<exists>location. datum_line (datum_entity_line id_digits X Y l ref_digits) (dr, d2f) =
           Inr (AList.update [l] location dr,
                AList.update [l] (X @ ''@'' @ Y @ ''('' @ [l] @ '')'') d2f)"
proof -
  from determine_plane_position_short [of "lower Y" "Some [l]"] assms(11)
  obtain location where "determine_plane_position (Some (lower Y)) (Some [l]) = Inr location"
    by (auto simp: length_lower)
  then have "\<exists>location. feature_location (lower Y) [l] = Inr location"
    by (simp add: feature_location_def)
  with datum_line_entity [OF assms(1-10), of dr d2f] show ?thesis
    by auto
qed

lemma datum_line_same_location:
  assumes "id_digits \<noteq> []" "list_all is_digit id_digits"
    and "ref_digits \<noteq> []" "list_all is_digit ref_digits"
    and "CHR 0x27 \<notin> set X" "CHR ''@'' \<notin> set X"
    and "Y \<noteq> []" "CHR 0x27 \<notin> set Y" "CHR ''('' \<notin> set Y"
    and "is_upper l"
    and "id_digits2 \<noteq> []" "list_all is_digit id_digits2"
    and "ref_digits2 \<noteq> []" "list_all is_digit ref_digits2"
    and "CHR 0x27 \<notin> set X2" "CHR ''@'' \<notin> set X2"
    and "is_upper l2"
    and "l2 = l \<or> py_in ''boss'' (lower Y) \<or> py_in ''plane1'' (lower Y)
           \<or> py_in ''plane2'' (lower Y) \<or> \<not> py_in ''plane'' (lower Y)"
  shows "(\<exists>location.
            datum_line (datum_entity_line id_digits X Y l ref_digits) (dr, d2f) =
              Inr (AList.update [l] location dr,
                   AList.update [l] (X @ ''@'' @ Y @ ''('' @ [l] @ '')'') d2f) \<and>
            datum_line (datum_entity_line id_digits2 X2 Y l2 ref_digits2) (dr2, d2f2) =
              Inr (AList.update [l2] location dr2,
                   AList.update [l2] (X2 @ ''@'' @ Y @ ''('' @ [l2] @ '')'') d2f2)) \<or>
         (\<exists>e. datum_line (datum_entity_line id_digits X Y l ref_digits) (dr, d2f) = Inl e \<and>
              datum_line (datum_entity_line id_digits2 X2 Y l2 ref_digits2) (dr2, d2f2) = Inl e)"
proof -
  from assms(18) have same: "feature_location (lower Y) [l2] = feature_location (lower Y) [l]"
    by (auto simp: feature_location_def)
  note one = datum_line_entity [OF assms(1-10), of dr d2f]
  note two = datum_line_entity [OF assms(11-16) assms(7-9) assms(17), of dr2 d2f2]
  show ?thesis
  proof (cases "feature_location (lower Y) [l]")
    case (Inl e)
    with one two same show ?thesis by simp
  next
    case (Inr location)
    with one two same have
      "datum_line (datum_entity_line id_digits X Y l ref_digits) (dr, d2f) =
         Inr (AList.update [l] location dr,
              AList.update [l] (X @ ''@'' @ Y @ ''('' @ [l] @ '')'') d2f) \<and>
       datum_line (datum_entity_line id_digits2 X2 Y l2 ref_digits2) (dr2, d2f2) =
         Inr (AList.update [l2] location dr2,
              AList.update [l2] (X2 @ ''@'' @ Y @ ''('' @ [l2] @ '')'') d2f2)"
      by simp
    then show ?thesis by blast
  qed
qed

lemma geometric_row_datum: "row_datum (geometric_row r) = tol_datum r"
  by (cases r) (simp add: geometric_row_def row_datum_def tol_datum_def Let_def)

lemma table_tolerance_row_datum: "table_row_datum (table_tolerance_row r) = table_tol_datum r"
  by (cases r) (simp add: table_tolerance_row_def table_row_datum_def table_tol_datum_def Let_def)

section \<open>Properties of the classifier\<close>

text \<open>
  C5. The five boundary cases of the classifier: "Plane1" and "Plane2" without a datum
  letter are the bottom and the top face, "SomePlane" with datum B is the cylindrical
  side and with datum D the top face, and "RandomName" without a datum letter comes
  back unchanged.
\<close>

theorem classifier_boundary_cases:
  "determine_plane_position (Some ''Plane1'') None = Inr ''bottom face'' \<and>
   determine_plane_position (Some ''Plane2'') None = Inr ''top face'' \<and>
   determine_plane_position (Some ''SomePlane'') (Some ''B'') = Inr ''cylindrical side'' \<and>
   determine_plane_position (Some ''SomePlane'') (Some ''D'') = Inr ''top face'' \<and>
   determine_plane_position (Some ''RandomName'') None = Inr ''RandomName''"
  by code_simp

text \<open>
  C10. An empty or absent feature name is classified as "surface", whatever the datum
  letter; the name itself is only returned when it is not empty.
\<close>

theorem classifier_empty_name:
  "determine_plane_position None datum_letter = Inr ''surface'' \<and>
   determine_plane_position (Some []) datum_letter = Inr ''surface''"
  by (simp add: determine_plane_position_def)

section \<open>Properties of the datum matching\<close>

text \<open>
  C6 (evaluation of the code). For the feature name "Boss1(B)" with the datums A on the
  cylindrical side and B on the top face, the routine answers A: the name is put in
  lower case before the two patterns with \<open>[A-Z]\<close> are tried, so "(b)" matches
  neither, and the feature-type method picks the first cylindrical datum.
\<close>

theorem parenthesized_letter_not_used:
  "find_datum_for_dimensional_tolerance ''Boss1(B)''
     [(''A'', ''cylindrical side''), (''B'', ''top face'')]
     [(''A'', ''Datum1@Boss2(A)''), (''B'', ''Datum2@Plane2(B)'')] = Inr ''A''"
  by code_simp

section \<open>The extraction on the example texts\<close>



text \<open>
  C2 (evaluation of the code). On the text with the diameter of "Boss1", nominal 10.0
  and tolerance values -0.1 and 0.1, \<open>extract_tolerance_data\<close> gives one row, of the
  diameter: upper limit "10.100", lower limit "9.900", and a tolerance range that ends
  in "0.100" but begins with the two characters U+00AC U+00B1 of the source's literal,
  not with the plus-minus sign U+00B1 alone.
\<close>

theorem diameter_scenario:
  "extract_tolerance_data diameter_text =
     [([CHR 0xE2, CHR 0x80, CHR 0x9A, CHR 0xC3, CHR 0xA5, CHR 0xC3, CHR 0x84] @ '' Diameter'',
       ''10.0'', [], ''cylindrical side'', ''curved side of the cylinder'',
       [CHR 0xC2, CHR 0xAC, CHR 0xC2, CHR 0xB1] @ ''0.100'', ''10.100'', ''9.900'')] \<and>
   range_prefix = [CHR 0xC2, CHR 0xAC, CHR 0xC2, CHR 0xB1] \<and>
   plus_minus_sign = [CHR 0xC2, CHR 0xB1] \<and>
   range_prefix @ ''0.100'' \<noteq> plus_minus_sign @ ''0.100''"
  by code_simp

section \<open>The keys of the datum map\<close>

text \<open>
  C9 (as stated, refuted). On the text with the shape aspect named "x(b", the datum
  map after the two scans has the key "b", which is not a capital letter.
\<close>

theorem small_letter_key:
  "datum_maps small_letter_text = Inr ([(''b'', [])], []) \<and> \<not> is_upper (CHR ''b'')"
  by code_simp

text \<open>
  C9 (amended). After the datum loop and the shape-aspect loop on an ASCII text (the
  two loops are the same in \<open>extract_tolerance_data\<close> and in \<open>extract_tolerance_table\<close> of
  main.py), every key of the datum map is a single character that is an ASCII letter
  of either case, a digit or the underscore, which is what \<open>(\w)?\<close> of the shape-aspect
  pattern admits on such a text; every key of the map from datum letters to feature
  names, which only DATUM lines fill, is a single capital letter from A to Z; and
  every key of the second map is a key of the first.
\<close>

theorem datum_keys_single_characters:
  assumes "isascii inp"
    and "datum_maps inp = Inr (datum_results, datum_letter_to_feature)"
  shows "(\<forall>k \<in> set (dict_keys datum_results).
            \<exists>x. k = [x] \<and> x \<in> set (lower_letters @ upper_letters @ digit_chars @ ''_'')) \<and>
         (\<forall>k \<in> set (dict_keys datum_letter_to_feature).
            \<exists>x. k = [x] \<and> x \<in> set upper_letters) \<and>
         set (dict_keys datum_letter_to_feature) \<subseteq> set (dict_keys datum_results)"
proof -
  have word: "is_word x \<Longrightarrow> x \<in> set (lower_letters @ upper_letters @ digit_chars @ ''_'')" for x
    by (auto simp: is_word_def is_lower_def is_upper_def is_digit_def char_in_set
          split: if_splits)
  have up: "is_upper x \<Longrightarrow> x \<in> set upper_letters" for x
    by (simp add: is_upper_def char_in_set)
  from datum_maps_keys [OF assms(2)] word up show ?thesis
    by blast
qed

theorem datum_keys_single_characters_witness:
  "datum_maps shape_letter_text =
     Inr ([(''A'', ''bottom face''), (''b'', ''top face'')], [(''A'', ''D1@Plane1(A)'')]) \<and>
   CHR ''A'' \<in> set (lower_letters @ upper_letters @ digit_chars @ ''_'') \<and>
   CHR ''b'' \<in> set (lower_letters @ upper_letters @ digit_chars @ ''_'') \<and>
   CHR ''A'' \<in> set upper_letters"
proof -
  have ascii: "isascii shape_letter_text"
    by code_simp
  have maps: "datum_maps shape_letter_text =
     Inr ([(''A'', ''bottom face''), (''b'', ''top face'')], [(''A'', ''D1@Plane1(A)'')])"
    by code_simp
  from datum_keys_single_characters [OF ascii maps] show ?thesis
    using maps by (simp add: dict_keys_def)
qed

section \<open>The location of a datum\<close>

text \<open>
  C4 (as stated, refuted). Two DATUM lines with the same feature token "Plane3" and the
  letters B and D get different locations: the cylindrical side and the top face.
\<close>

theorem same_token_different_location:
  "datum_entity_line ''1'' ''D1'' ''Plane3'' (CHR ''B'') ''1'' = ''#1=DATUM('D1@Plane3(B)',$,#1,.F.,'B');'' \<and>
   datum_entity_line ''2'' ''D2'' ''Plane3'' (CHR ''D'') ''7'' = ''#2=DATUM('D2@Plane3(D)',$,#7,.F.,'D');'' \<and>
   datum_line ''#1=DATUM('D1@Plane3(B)',$,#1,.F.,'B');'' ([], []) =
     Inr ([(''B'', ''cylindrical side'')], [(''B'', ''D1@Plane3(B)'')]) \<and>
   datum_line ''#2=DATUM('D2@Plane3(D)',$,#7,.F.,'D');'' ([], []) =
     Inr ([(''D'', ''top face'')], [(''D'', ''D2@Plane3(D)'')])"
  by code_simp

text \<open>
  C4 (amended). Take an ASCII line \<open>#id=DATUM('X@Y(L)',$,#ref,.F.,'L');\<close>: id and ref
  are digits, X has no apostrophe and no "@", Y is not empty and has no apostrophe and
  no "(", L is a capital letter. The step of the datum loop on it (the same in
  \<open>extract_tolerance_data\<close> and in main.py) stores the name \<open>X@Y(L)\<close> under L in the
  map of feature names, and under L in the datum map it stores

    \<^item> "cylindrical side" when Y in lower case contains "boss",
    \<^item> else "bottom face" when it contains "plane1",
    \<^item> else "top face" when it contains "plane2",
    \<^item> else, when it contains "plane", what the classifier returns for Y in lower case
      and the letter L,
    \<^item> else Y in lower case.

  Nothing else is read from the line. Only the classifier can raise, on a plane number
  of more than 4300 digits; then nothing is stored and the exception leaves the loop.
  With a token Y of at most 4300 characters the step does store a location under L.
  A second such line with the same token Y, and any id, ref, X and letter of its own,
  stores the same location under its letter (or raises the same exception) when the
  two letters are the same, or when Y in lower case contains "boss", "plane1" or
  "plane2" or does not contain "plane".
\<close>

theorem datum_location_by_token_and_letter:
  assumes "id_digits \<noteq> []" "list_all is_digit id_digits"
    and "ref_digits \<noteq> []" "list_all is_digit ref_digits"
    and "CHR 0x27 \<notin> set X" "CHR ''@'' \<notin> set X"
    and "Y \<noteq> []" "CHR 0x27 \<notin> set Y" "CHR ''('' \<notin> set Y"
    and "is_upper l"
    and "id_digits2 \<noteq> []" "list_all is_digit id_digits2"
    and "ref_digits2 \<noteq> []" "list_all is_digit ref_digits2"
    and "CHR 0x27 \<notin> set X2" "CHR ''@'' \<notin> set X2"
    and "is_upper l2"
    and "isascii X" "isascii Y" "isascii X2"
  shows "datum_line (datum_entity_line id_digits X Y l ref_digits)
           (datum_results, datum_letter_to_feature) =
           (case (if py_in ''boss'' (lower Y) then Inr ''cylindrical side''
                  else if py_in ''plane1'' (lower Y) then Inr ''bottom face''
                  else if py_in ''plane2'' (lower Y) then Inr ''top face''
                  else if py_in ''plane'' (lower Y) then
                    determine_plane_position (Some (lower Y)) (Some [l])
                  else Inr (lower Y)) of
              Inl e \<Rightarrow> Inl e
            | Inr location \<Rightarrow>
                Inr (AList.update [l] location datum_results,
                     AList.update [l] (X @ ''@'' @ Y @ ''('' @ [l] @ '')'')
                       datum_letter_to_feature)) \<and>
         (length Y \<le> 4300 \<longrightarrow>
            (\<exists>location.
               datum_line (datum_entity_line id_digits X Y l ref_digits)
                 (datum_results, datum_letter_to_feature) =
                 Inr (AList.update [l] location datum_results,
                      AList.update [l] (X @ ''@'' @ Y @ ''('' @ [l] @ '')'')
                        datum_letter_to_feature))) \<and>
         (l2 = l \<or> py_in ''boss'' (lower Y) \<or> py_in ''plane1'' (lower Y)
            \<or> py_in ''plane2'' (lower Y) \<or> \<not> py_in ''plane'' (lower Y) \<longrightarrow>
            (\<exists>location.
               datum_line (datum_entity_line id_digits X Y l ref_digits)
                 (datum_results, datum_letter_to_feature) =
                 Inr (AList.update [l] location datum_results,
                      AList.update [l] (X @ ''@'' @ Y @ ''('' @ [l] @ '')'')
                        datum_letter_to_feature) \<and>
               datum_line (datum_entity_line id_digits2 X2 Y l2 ref_digits2)
                 (datum_results2, datum_letter_to_feature2) =
                 Inr (AList.update [l2] location datum_results2,
                      AList.update [l2] (X2 @ ''@'' @ Y @ ''('' @ [l2] @ '')'')
                        datum_letter_to_feature2)) \<or>
            (\<exists>e. datum_line (datum_entity_line id_digits X Y l ref_digits)
                    (datum_results, datum_letter_to_feature) = Inl e \<and>
                 datum_line (datum_entity_line id_digits2 X2 Y l2 ref_digits2)
                    (datum_results2, datum_letter_to_feature2) = Inl e))"
proof (intro conjI impI)
  show "datum_line (datum_entity_line id_digits X Y l ref_digits)
           (datum_results, datum_letter_to_feature) =
           (case (if py_in ''boss'' (lower Y) then Inr ''cylindrical side''
                  else if py_in ''plane1'' (lower Y) then Inr ''bottom face''
                  else if py_in ''plane2'' (lower Y) then Inr ''top face''
                  else if py_in ''plane'' (lower Y) then
                    determine_plane_position (Some (lower Y)) (Some [l])
                  else Inr (lower Y)) of
              Inl e \<Rightarrow> Inl e
            | Inr location \<Rightarrow>
                Inr (AList.update [l] location datum_results,
                     AList.update [l] (X @ ''@'' @ Y @ ''('' @ [l] @ '')'')
                       datum_letter_to_feature))"
    by (rule datum_line_written_out [OF assms(1-10)])
next
  assume "length Y \<le> 4300"
  from datum_line_stores [OF assms(1-10) this]
  show "\<exists>location.
          datum_line (datum_entity_line id_digits X Y l ref_digits)
            (datum_results, datum_letter_to_feature) =
            Inr (AList.update [l] location datum_results,
                 AList.update [l] (X @ ''@'' @ Y @ ''('' @ [l] @ '')'')
                   datum_letter_to_feature)" .
next
  assume "l2 = l \<or> py_in ''boss'' (lower Y) \<or> py_in ''plane1'' (lower Y)
            \<or> py_in ''plane2'' (lower Y) \<or> \<not> py_in ''plane'' (lower Y)"
  from datum_line_same_location [OF assms(1-17) this]
  show "(\<exists>location.
               datum_line (datum_entity_line id_digits X Y l ref_digits)
                 (datum_results, datum_letter_to_feature) =
                 Inr (AList.update [l] location datum_results,
                      AList.update [l] (X @ ''@'' @ Y @ ''('' @ [l] @ '')'')
                        datum_letter_to_feature) \<and>
               datum_line (datum_entity_line id_digits2 X2 Y l2 ref_digits2)
                 (datum_results2, datum_letter_to_feature2) =
                 Inr (AList.update [l2] location datum_results2,
                      AList.update [l2] (X2 @ ''@'' @ Y @ ''('' @ [l2] @ '')'')
                        datum_letter_to_feature2)) \<or>
            (\<exists>e. datum_line (datum_entity_line id_digits X Y l ref_digits)
                    (datum_results, datum_letter_to_feature) = Inl e \<and>
                 datum_line (datum_entity_line id_digits2 X2 Y l2 ref_digits2)
                    (datum_results2, datum_letter_to_feature2) = Inl e)" .
qed

theorem datum_location_by_token_and_letter_witness:
  "datum_line (datum_entity_line ''522'' ''Datum29'' ''Plane1'' (CHR ''A'') ''23'') ([], []) =
     Inr ([(''A'', ''bottom face'')], [(''A'', ''Datum29@Plane1(A)'')]) \<and>
   datum_line (datum_entity_line ''7'' ''D2'' ''Plane1'' (CHR ''D'') ''9'') ([], []) =
     Inr ([(''D'', ''bottom face'')], [(''D'', ''D2@Plane1(D)'')])"
proof -
  have h: "''522'' \<noteq> []" "list_all is_digit ''522''" "''23'' \<noteq> []" "list_all is_digit ''23''"
    "CHR 0x27 \<notin> set ''Datum29''" "CHR ''@'' \<notin> set ''Datum29''"
    "''Plane1'' \<noteq> []" "CHR 0x27 \<notin> set ''Plane1''" "CHR ''('' \<notin> set ''Plane1''"
    "is_upper (CHR ''A'')"
    "''7'' \<noteq> []" "list_all is_digit ''7''" "''9'' \<noteq> []" "list_all is_digit ''9''"
    "CHR 0x27 \<notin> set ''D2''" "CHR ''@'' \<notin> set ''D2''"
    "is_upper (CHR ''D'')"
    "isascii ''Datum29''" "isascii ''Plane1''" "isascii ''D2''"
    by code_simp+
  have boss: "\<not> py_in ''boss'' (lower ''Plane1'')"
    by code_simp
  have plane1: "py_in ''plane1'' (lower ''Plane1'')"
    by code_simp
  from datum_location_by_token_and_letter [OF h, of "[]" "[]" "[]" "[]"] boss plane1
  show ?thesis by auto
qed

section \<open>The last tier for straightness\<close>

text \<open>
  C7 (as stated, refuted). On the text with the datums A and B and four straightness
  tolerances that reach the last tier, the four rows get the datums A, B, A, A. The
  fourth row is made when three rows exist, and the letter at index 3 modulo 2 of the
  known letters is B.
\<close>

theorem straightness_not_round_robin:
  "map row_datum (take 4 (extract_tolerance_data straightness_text)) = [''A'', ''B'', ''A'', ''A''] \<and>
   datum_maps straightness_text =
     Inr ([(''A'', ''pin1''), (''B'', ''pin2'')], [(''A'', ''D1@Pin1(A)''), (''B'', ''D2@Pin2(B)'')]) \<and>
   dict_keys [(''A'', ''pin1''), (''B'', ''pin2'')] ! (3 mod 2) = ''B''"
  by code_simp

text \<open>
  C7 (amended). Take an ASCII text whose datum loop does not raise, with its datum map
  as it stands after the datum loop and the shape-aspect loop. Let \<open>c\<close> be the match of
  the tolerance pattern at index \<open>i\<close> (from 0) among the matches in the text, and let it
  be a straightness tolerance.

  In \<open>extract_tolerance_data\<close> of Latestupdatedversion1.0.py: when at least one datum
  is known and methods 1 to 5 leave the location empty, the loop body appends to the
  rows made so far, \<open>tol_results\<close>, a row with the known datum letter at the index
  \<open>len(tol_results)\<close> when that is below the number of known letters, and with the
  first known letter otherwise, together with the location of that letter; there is no
  wrapping around. In the run \<open>len(tol_results)\<close> is \<open>i\<close>: row \<open>i\<close> of the tolerance
  rows, and so row \<open>i\<close> of the result, has the letter at index \<open>i\<close> for \<open>i\<close> below the
  number of known letters and the first known letter from then on.

  In \<open>extract_tolerance_table\<close> of main.py: when methods 1 to 3 leave the location
  empty, the last method sets the location "surface" and assigns no datum letter; row
  \<open>i\<close> of the result keeps the letter that methods 1 and 2 left, which is empty when
  they found none.
\<close>

theorem straightness_last_tier:
  assumes "isascii inp"
    and "datum_maps inp = Inr (datum_results, datum_letter_to_feature)"
    and "i < length (re_finditer tol_pattern inp)"
    and "c = re_finditer tol_pattern inp ! i"
    and "lower (tol_label (group c 2)) = ''straightness''"
  shows "(datum_results \<noteq> [] \<and>
          tol_method5 datum_results
            (tol_method4 (group c 3) datum_letter_to_feature
               (tol_method3 (group c 1) (splitlines inp) (build_line_dict (splitlines inp))
                  datum_results
                  (tol_method2 (group c 3) datum_results
                     (tol_method1 (group c 3) datum_results)))) = (datum_letter, []) \<longrightarrow>
          tol_match (splitlines inp) (build_line_dict (splitlines inp)) datum_results
              datum_letter_to_feature c tol_results =
            tol_results @
              [(tol_label (group c 2), tol_value (build_line_dict (splitlines inp)) (group c 4),
                if length tol_results < length (dict_keys datum_results)
                then dict_keys datum_results ! length tol_results
                else dict_keys datum_results ! 0,
                dict_get datum_results
                  (if length tol_results < length (dict_keys datum_results)
                   then dict_keys datum_results ! length tol_results
                   else dict_keys datum_results ! 0) [],
                [], [], [])] \<and>
          tol_results_of inp datum_results datum_letter_to_feature ! i =
            (tol_label (group c 2), tol_value (build_line_dict (splitlines inp)) (group c 4),
             if i < length (dict_keys datum_results) then dict_keys datum_results ! i
             else dict_keys datum_results ! 0,
             dict_get datum_results
               (if i < length (dict_keys datum_results) then dict_keys datum_results ! i
                else dict_keys datum_results ! 0) [],
             [], [], []) \<and>
          row_datum (extract_tolerance_data inp ! i) =
            (if i < length (dict_keys datum_results) then dict_keys datum_results ! i
             else dict_keys datum_results ! 0)) \<and>
         (table_method3 (group c 3)
            (tol_method2 (group c 3) datum_results (tol_method1 (group c 3) datum_results))
            = (table_letter, []) \<longrightarrow>
          table_match (build_line_dict (splitlines inp)) datum_results c table_results =
            table_results @
              [(tol_label (group c 2), tol_value (build_line_dict (splitlines inp)) (group c 4),
                table_letter, ''surface'')] \<and>
          table_scan inp (build_line_dict (splitlines inp)) datum_results ! i =
            (tol_label (group c 2), tol_value (build_line_dict (splitlines inp)) (group c 4),
             table_letter, ''surface'') \<and>
          (\<exists>table_rows. extract_tolerance_table inp = Inr table_rows \<and>
             table_row_datum (table_rows ! i) = table_letter))"
proof (intro conjI impI)
  assume a: "datum_results \<noteq> [] \<and>
          tol_method5 datum_results
            (tol_method4 (group c 3) datum_letter_to_feature
               (tol_method3 (group c 1) (splitlines inp) (build_line_dict (splitlines inp))
                  datum_results
                  (tol_method2 (group c 3) datum_results
                     (tol_method1 (group c 3) datum_results)))) = (datum_letter, [])"
  then have ne: "datum_results \<noteq> []"
    and st: "tol_method5 datum_results
            (tol_method4 (group c 3) datum_letter_to_feature
               (tol_method3 (group c 1) (splitlines inp) (build_line_dict (splitlines inp))
                  datum_results
                  (tol_method2 (group c 3) datum_results
                     (tol_method1 (group c 3) datum_results)))) = (datum_letter, [])"
    by simp_all
  from tol_match_straightness [OF assms(5) ne st]
  show "tol_match (splitlines inp) (build_line_dict (splitlines inp)) datum_results
              datum_letter_to_feature c tol_results =
            tol_results @
              [(tol_label (group c 2), tol_value (build_line_dict (splitlines inp)) (group c 4),
                if length tol_results < length (dict_keys datum_results)
                then dict_keys datum_results ! length tol_results
                else dict_keys datum_results ! 0,
                dict_get datum_results
                  (if length tol_results < length (dict_keys datum_results)
                   then dict_keys datum_results ! length tol_results
                   else dict_keys datum_results ! 0) [],
                [], [], [])]" .
  from tolerance_scan_straightness [OF assms(3,4,5) ne st]
  show row: "tol_results_of inp datum_results datum_letter_to_feature ! i =
            (tol_label (group c 2), tol_value (build_line_dict (splitlines inp)) (group c 4),
             if i < length (dict_keys datum_results) then dict_keys datum_results ! i
             else dict_keys datum_results ! 0,
             dict_get datum_results
               (if i < length (dict_keys datum_results) then dict_keys datum_results ! i
                else dict_keys datum_results ! 0) [],
             [], [], [])"
    by (simp only: tol_results_of_def)
  from extract_tolerance_data_nth [OF assms(2,3)] row
  show "row_datum (extract_tolerance_data inp ! i) =
            (if i < length (dict_keys datum_results) then dict_keys datum_results ! i
             else dict_keys datum_results ! 0)"
    by (simp add: geometric_row_datum tol_datum_def)
next
  assume st: "table_method3 (group c 3)
            (tol_method2 (group c 3) datum_results (tol_method1 (group c 3) datum_results))
            = (table_letter, [])"
  from table_match_straightness [OF assms(5) st]
  show "table_match (build_line_dict (splitlines inp)) datum_results c table_results =
            table_results @
              [(tol_label (group c 2), tol_value (build_line_dict (splitlines inp)) (group c 4),
                table_letter, ''surface'')]" .
  from table_scan_straightness [OF assms(3,4,5) st]
  show row: "table_scan inp (build_line_dict (splitlines inp)) datum_results ! i =
            (tol_label (group c 2), tol_value (build_line_dict (splitlines inp)) (group c 4),
             table_letter, ''surface'')" .
  from extract_tolerance_table_nth [OF assms(2,3)] row
  show "\<exists>table_rows. extract_tolerance_table inp = Inr table_rows \<and>
             table_row_datum (table_rows ! i) = table_letter"
    by (auto simp: table_tolerance_row_datum table_tol_datum_def)
qed

theorem straightness_last_tier_witness:
  "tol_results_of straightness_text
     [(''A'', ''pin1''), (''B'', ''pin2'')] [(''A'', ''D1@Pin1(A)''), (''B'', ''D2@Pin2(B)'')] ! 3 =
     (''Straightness'', ''N/A'', ''A'', ''pin1'', [], [], []) \<and>
   row_datum (extract_tolerance_data straightness_text ! 3) = ''A'' \<and>
   table_scan straightness_text (build_line_dict (splitlines straightness_text))
     [(''A'', ''pin1''), (''B'', ''pin2'')] ! 3 =
     (''Straightness'', ''N/A'', [], ''surface'')"
proof -
  let ?c = "re_finditer tol_pattern straightness_text ! 3"
  let ?dr = "[(''A'', ''pin1''), (''B'', ''pin2'')]"
  let ?d2f = "[(''A'', ''D1@Pin1(A)''), (''B'', ''D2@Pin2(B)'')]"
  let ?lines = "splitlines straightness_text"
  let ?line_dict = "build_line_dict (splitlines straightness_text)"
  have ascii: "isascii straightness_text"
    by code_simp
  have maps: "datum_maps straightness_text = Inr (?dr, ?d2f)"
    by code_simp
  have i: "3 < length (re_finditer tol_pattern straightness_text)"
    by code_simp
  have label: "tol_label (group ?c 2) = ''Straightness''"
    by code_simp
  have straight: "lower (tol_label (group ?c 2)) = ''straightness''"
    by code_simp
  have v: "tol_value ?line_dict (group ?c 4) = ''N/A''"
    by code_simp
  have st: "tol_method5 ?dr (tol_method4 (group ?c 3) ?d2f
              (tol_method3 (group ?c 1) ?lines ?line_dict ?dr
                 (tol_method2 (group ?c 3) ?dr (tol_method1 (group ?c 3) ?dr)))) = ([], [])"
    by code_simp
  have tst: "table_method3 (group ?c 3) (tol_method2 (group ?c 3) ?dr (tol_method1 (group ?c 3) ?dr))
              = ([], [])"
    by code_simp
  have ne: "?dr \<noteq> []"
    by simp
  from straightness_last_tier [OF ascii maps i refl straight, of "[]" "[]" "[]" "[]"]
    st tst ne label v
  show ?thesis by (simp add: dict_keys_def dict_get_def)
qed

section \<open>The datum letters of the rows\<close>

text \<open>
  C3 (as stated, refuted). On the text whose only line is a flatness tolerance named
  "Tol(Q)", the datum map is empty and the row of the tolerance has the datum Q: method
  1 takes the letter in parentheses as it stands and reads its location with a default.
\<close>

theorem unknown_datum_row:
  "map row_datum (extract_tolerance_data unknown_datum_text) = [''Q''] \<and>
   datum_maps unknown_datum_text = Inr ([], []) \<and>
   map table_row_datum (case extract_tolerance_table unknown_datum_text of
                          Inl e \<Rightarrow> [] | Inr table_rows \<Rightarrow> table_rows) = [''Q'']"
  by code_simp

text \<open>
  C3 (amended). On an ASCII text whose datum loop does not raise, with the datum map
  and the map of feature names as they stand after the datum loop and the shape-aspect
  loop:

    \<^item> the datum letter of every geometric row of \<open>extract_tolerance_data\<close> is empty, or
      a key of the datum map, or a single capital letter that stands in parentheses
      somewhere in the text (methods 1 and 3 take such a letter without looking it up);
    \<^item> the datum letter of every dimensional row is empty or a key of the datum map;
    \<^item> the datum letter of every tolerance row of \<open>extract_tolerance_table\<close> of main.py
      is empty, or a key of the datum map, or a single capital letter that stands in
      parentheses somewhere in the text.

  These are all the rows of the two results but the datum rows, whose letters are keys.
\<close>

theorem row_datums_accounted:
  assumes "isascii inp"
    and "datum_maps inp = Inr (datum_results, datum_letter_to_feature)"
  shows "(\<forall>r \<in> set (map geometric_row (tol_results_of inp datum_results datum_letter_to_feature)).
            row_datum r = [] \<or> row_datum r \<in> set (dict_keys datum_results) \<or>
            ((\<exists>x. row_datum r = [x] \<and> is_upper x) \<and> py_in (''('' @ row_datum r @ '')'') inp)) \<and>
         (\<forall>r \<in> set (extract_dimensional_tolerances inp (build_line_dict (splitlines inp))
                       datum_results datum_letter_to_feature).
            row_datum r = [] \<or> row_datum r \<in> set (dict_keys datum_results)) \<and>
         (\<forall>r \<in> set (map table_tolerance_row
                       (table_scan inp (build_line_dict (splitlines inp)) datum_results)).
            table_row_datum r = [] \<or> table_row_datum r \<in> set (dict_keys datum_results) \<or>
            ((\<exists>x. table_row_datum r = [x] \<and> is_upper x) \<and>
             py_in (''('' @ table_row_datum r @ '')'') inp)) \<and>
         extract_tolerance_data inp =
           map geometric_row (tol_results_of inp datum_results datum_letter_to_feature)
           @ extract_dimensional_tolerances inp (build_line_dict (splitlines inp))
               datum_results datum_letter_to_feature
           @ map (datum_row datum_results) datum_letter_to_feature \<and>
         extract_tolerance_table inp =
           Inr (map table_tolerance_row
                  (table_scan inp (build_line_dict (splitlines inp)) datum_results)
                @ map (table_datum_row datum_results) datum_letter_to_feature) \<and>
         set (dict_keys datum_letter_to_feature) \<subseteq> set (dict_keys datum_results)"
proof (intro conjI)
  note keys = datum_maps_keys(3) [OF assms(2)]
  from tol_results_accounted [OF keys, of inp]
  show "\<forall>r \<in> set (map geometric_row (tol_results_of inp datum_results datum_letter_to_feature)).
            row_datum r = [] \<or> row_datum r \<in> set (dict_keys datum_results) \<or>
            ((\<exists>x. row_datum r = [x] \<and> is_upper x) \<and> py_in (''('' @ row_datum r @ '')'') inp)"
    by (simp add: geometric_row_datum accounted_def)
  from dimensional_rows_key [OF _ keys]
  show "\<forall>r \<in> set (extract_dimensional_tolerances inp (build_line_dict (splitlines inp))
                       datum_results datum_letter_to_feature).
            row_datum r = [] \<or> row_datum r \<in> set (dict_keys datum_results)"
    by blast
  from table_scan_accounted [of inp "build_line_dict (splitlines inp)" datum_results]
  show "\<forall>r \<in> set (map table_tolerance_row
                       (table_scan inp (build_line_dict (splitlines inp)) datum_results)).
            table_row_datum r = [] \<or> table_row_datum r \<in> set (dict_keys datum_results) \<or>
            ((\<exists>x. table_row_datum r = [x] \<and> is_upper x) \<and>
             py_in (''('' @ table_row_datum r @ '')'') inp)"
    by (simp add: table_tolerance_row_datum accounted_def)
  from assms(2)
  show "extract_tolerance_data inp =
           map geometric_row (tol_results_of inp datum_results datum_letter_to_feature)
           @ extract_dimensional_tolerances inp (build_line_dict (splitlines inp))
               datum_results datum_letter_to_feature
           @ map (datum_row datum_results) datum_letter_to_feature"
    by (simp add: extract_tolerance_data_def extract_body_def Let_def)
  from assms(2)
  show "extract_tolerance_table inp =
           Inr (map table_tolerance_row
                  (table_scan inp (build_line_dict (splitlines inp)) datum_results)
                @ map (table_datum_row datum_results) datum_letter_to_feature)"
    by (simp add: extract_tolerance_table_def Let_def)
  from keys show "set (dict_keys datum_letter_to_feature) \<subseteq> set (dict_keys datum_results)" .
qed

theorem row_datums_accounted_witness:
  "datum_maps cylindricity_text =
     Inr ([(''A'', ''cylindrical side'')], [(''A'', ''Datum1@Boss1(A)'')]) \<and>
   map row_datum (map geometric_row
     (tol_results_of cylindricity_text [(''A'', ''cylindrical side'')]
        [(''A'', ''Datum1@Boss1(A)'')])) = [''A''] \<and>
   ''A'' \<in> set (dict_keys [(''A'', ''cylindrical side'')])"
proof -
  have ascii: "isascii cylindricity_text"
    by code_simp
  have maps: "datum_maps cylindricity_text =
     Inr ([(''A'', ''cylindrical side'')], [(''A'', ''Datum1@Boss1(A)'')])"
    by code_simp
  have rows: "map row_datum (map geometric_row
     (tol_results_of cylindricity_text [(''A'', ''cylindrical side'')]
        [(''A'', ''Datum1@Boss1(A)'')])) = [''A'']"
    by code_simp
  from row_datums_accounted [OF ascii maps] maps rows show ?thesis
    by (simp add: dict_keys_def)
qed

section \<open>Exceptions at the two entry points\<close>




end
